theory Spec2Isabelle
  imports Main
begin

section \<open>Values, exceptions and the observable trace\<close>

text \<open>
  The module \<^verbatim>\<open>databricks_query.py\<close> is glue around two libraries that are not part of
  the repository: the Databricks SQL client (\<^verbatim>\<open>databricks.sql\<close>) and pandas. The
  embedding keeps the module's own control flow and makes everything it does to the
  outside explicit:
  \<^item> a column value is a \<open>pyval\<close>, a row (a Python tuple) a list of them;
  \<open>exn\<close> stands for an instance of Python's \<^verbatim>\<open>Exception\<close> (class name and
  \<^verbatim>\<open>str(e)\<close>); every \<^verbatim>\<open>raise\<close> is an \<open>Inl\<close> result;
  \<^item> the client library is a parameter, a record of functions over an abstract world
  \<open>'w\<close>; each call returns the new world and either an exception or a value;
  \<^item> every line written by \<^verbatim>\<open>print\<close> and every call made to a library is
  appended to a trace of events, in program order. \<^verbatim>\<open>print\<close> itself is taken
  to succeed.
\<close>

datatype pyval = PyNone | PyBool bool | PyInt int | PyStr string

type_synonym row = "pyval list"

datatype exn = Exn (exn_class: string) (exn_str: string)

type_synonym conn = nat
type_synonym curs = nat

datatype event =
    Print string
  | SqlConnect string string string string
  | ConnCursor conn
  | CursorExecute curs string
  | CursorFetchall curs
  | CursorDescription curs
  | CursorClose curs
  | ConnClose conn
  | NewDataFrame "row list" "pyval list"

text \<open>The lines written to standard output, in order.\<close>

fun printed :: "event list \<Rightarrow> string list" where
  "printed [] = []"
| "printed (Print s # evs) = s # printed evs"
| "printed (_ # evs) = printed evs"

fun is_close_call :: "event \<Rightarrow> bool" where
  "is_close_call (CursorClose _) = True"
| "is_close_call (ConnClose _) = True"
| "is_close_call _ = False"

fun is_query_call :: "event \<Rightarrow> bool" where
  "is_query_call (CursorExecute _ _) = True"
| "is_query_call (CursorFetchall _) = True"
| "is_query_call _ = False"

fun is_table_call :: "event \<Rightarrow> bool" where
  "is_table_call (NewDataFrame _ _) = True"
| "is_table_call _ = False"

section \<open>The collaborators\<close>

text \<open>
  The client library as the module uses it: \<^verbatim>\<open>sql.connect(host=, http_path=,
  auth_type=, token=)\<close>, \<^verbatim>\<open>connection.cursor()\<close>, \<^verbatim>\<open>cursor.execute(query)\<close>,
  \<^verbatim>\<open>cursor.fetchall()\<close>, the attribute \<^verbatim>\<open>cursor.description\<close> (a sequence of
  tuples whose first component is the column name, or \<^verbatim>\<open>None\<close>),
  \<^verbatim>\<open>cursor.close()\<close> and \<^verbatim>\<open>connection.close()\<close>. Connections and cursors are
  object identities; their state lives in the world.
\<close>

record 'w client =
  sql_connect :: "string \<Rightarrow> string \<Rightarrow> string \<Rightarrow> string \<Rightarrow> 'w \<Rightarrow> (exn + conn) \<times> 'w"
  connection_cursor :: "conn \<Rightarrow> 'w \<Rightarrow> (exn + curs) \<times> 'w"
  cursor_execute :: "curs \<Rightarrow> string \<Rightarrow> 'w \<Rightarrow> (exn + unit) \<times> 'w"
  cursor_fetchall :: "curs \<Rightarrow> 'w \<Rightarrow> (exn + row list) \<times> 'w"
  cursor_description :: "curs \<Rightarrow> 'w \<Rightarrow> (exn + row list option) \<times> 'w"
  cursor_close :: "curs \<Rightarrow> 'w \<Rightarrow> (exn + unit) \<times> 'w"
  connection_close :: "conn \<Rightarrow> 'w \<Rightarrow> (exn + unit) \<times> 'w"

record dataframe =
  columns :: "pyval list"
  data :: "row list"

text \<open>
  Modelled from the spec: the tabular-data capability \<^verbatim>\<open>build_table(rows,
  column_names)\<close>, which the source reaches as \<^verbatim>\<open>pd.DataFrame(results,
  columns=columns)\<close>; pandas is not part of the repository. Following the spec, the
  construction fails when a row's width is inconsistent with the column count, and
  otherwise yields the ordered rows under the given column names.
\<close>

definition shape_error :: exn where
  "shape_error = Exn ''ValueError'' ''row width is inconsistent with column count''"

definition DataFrame :: "row list \<Rightarrow> pyval list \<Rightarrow> exn + dataframe" where
  "DataFrame results cols =
     (if list_all (\<lambda>r. length r = length cols) results
      then Inr \<lparr>columns = cols, data = results\<rparr>
      else Inl shape_error)"

text \<open>\<^verbatim>\<open>len(df)\<close>: the number of rows.\<close>

definition len_df :: "dataframe \<Rightarrow> nat" where
  "len_df df = length (data df)"

text \<open>The column-oriented reading of a table, \<^verbatim>\<open>{name: [values]}\<close>, in column order.\<close>

definition to_dict :: "dataframe \<Rightarrow> (pyval \<times> pyval list) list" where
  "to_dict df = map (\<lambda>(i, c). (c, map (\<lambda>r. r ! i) (data df))) (enumerate 0 (columns df))"

section \<open>Message texts\<close>

text \<open>
  The two symbols that start the module's messages are U+2713 and U+2717; a
  \<open>string\<close> is a list of bytes, so they appear in their UTF-8 encoding.
\<close>

definition check_mark :: string where
  "check_mark = [CHR 0xE2, CHR 0x9C, CHR 0x93]"

definition ballot_x :: string where
  "ballot_x = [CHR 0xE2, CHR 0x9C, CHR 0x97]"

definition digit_char :: "nat \<Rightarrow> char" where
  "digit_char d = ''0123456789'' ! d"

text \<open>The decimal numeral of a natural number, as an f-string formats an \<^verbatim>\<open>int\<close>.\<close>

fun str_nat :: "nat \<Rightarrow> string" where
  "str_nat n = (if n < 10 then [digit_char n] else str_nat (n div 10) @ [digit_char (n mod 10)])"

declare str_nat.simps [simp del]

definition msg_connected :: string where
  "msg_connected = check_mark @ '' Connected to Databricks''"

definition msg_connect_failed :: "exn \<Rightarrow> string" where
  "msg_connect_failed e = ballot_x @ '' Failed to connect to Databricks: '' @ exn_str e"

definition msg_query_failed :: "exn \<Rightarrow> string" where
  "msg_query_failed e = ballot_x @ '' Query execution failed: '' @ exn_str e"

definition msg_retrieved :: "nat \<Rightarrow> string" where
  "msg_retrieved n = check_mark @ '' Retrieved '' @ str_nat n @ '' rows''"

definition msg_convert_failed :: "exn \<Rightarrow> string" where
  "msg_convert_failed e = ballot_x @ '' Failed to convert results to DataFrame: '' @ exn_str e"

definition msg_closed :: string where
  "msg_closed = check_mark @ '' Connection closed''"

text \<open>The exceptions Python itself raises in the module's expressions.\<close>

definition none_has_no_attribute :: "string \<Rightarrow> exn" where
  "none_has_no_attribute a =
     Exn ''AttributeError''
       ([CHR 0x27] @ ''NoneType'' @ [CHR 0x27] @ '' object has no attribute ''
        @ [CHR 0x27] @ a @ [CHR 0x27])"

definition none_not_iterable :: exn where
  "none_not_iterable =
     Exn ''TypeError'' ([CHR 0x27] @ ''NoneType'' @ [CHR 0x27] @ '' object is not iterable'')"

definition index_out_of_range :: exn where
  "index_out_of_range = Exn ''IndexError'' ''tuple index out of range''"

section \<open>The connection handle\<close>

record DatabricksConnection =
  hostname :: string
  http_path :: string
  personal_access_token :: string
  catalog :: "string option"
  schema :: "string option"
  connection :: "conn option"
  cursor :: "curs option"

text \<open>\<^verbatim>\<open>__init__\<close>: stores the five parameters as given; both resource fields start absent.\<close>

definition init :: "string \<Rightarrow> string \<Rightarrow> string \<Rightarrow> string option \<Rightarrow> string option
    \<Rightarrow> DatabricksConnection" where
  "init host path token cat sch =
     \<lparr>hostname = host, http_path = path, personal_access_token = token,
      catalog = cat, schema = sch, connection = None, cursor = None\<rparr>"

text \<open>
  \<^verbatim>\<open>connect\<close>: the session is stored as soon as \<^verbatim>\<open>sql.connect\<close> returns, the
  cursor after \<^verbatim>\<open>connection.cursor()\<close> returns; any exception of the body is
  printed and raised again.
\<close>

definition connect :: "'w client \<Rightarrow> DatabricksConnection \<Rightarrow> 'w
    \<Rightarrow> (exn + unit) \<times> DatabricksConnection \<times> 'w \<times> event list" where
  "connect cl self w =
     (let call = SqlConnect (hostname self) (http_path self) ''pat'' (personal_access_token self)
      in case sql_connect cl (hostname self) (http_path self) ''pat''
                (personal_access_token self) w of
           (Inl e, w1) \<Rightarrow> (Inl e, self, w1, [call, Print (msg_connect_failed e)])
         | (Inr c, w1) \<Rightarrow>
             (let self1 = self\<lparr>connection := Some c\<rparr>
              in case connection_cursor cl c w1 of
                   (Inl e, w2) \<Rightarrow>
                     (Inl e, self1, w2, [call, ConnCursor c, Print (msg_connect_failed e)])
                 | (Inr k, w2) \<Rightarrow>
                     (Inr (), self1\<lparr>cursor := Some k\<rparr>, w2,
                      [call, ConnCursor c, Print msg_connected])))"

text \<open>
  \<^verbatim>\<open>execute_query\<close>: with no cursor stored, \<^verbatim>\<open>self.cursor.execute\<close> is an
  attribute access on \<^verbatim>\<open>None\<close>, which raises inside the \<^verbatim>\<open>try\<close>.
\<close>

definition execute_query :: "'w client \<Rightarrow> DatabricksConnection \<Rightarrow> string \<Rightarrow> 'w
    \<Rightarrow> (exn + row list) \<times> 'w \<times> event list" where
  "execute_query cl self query w =
     (case cursor self of
        None \<Rightarrow>
          (let e = none_has_no_attribute ''execute''
           in (Inl e, w, [Print (msg_query_failed e)]))
      | Some k \<Rightarrow>
          (case cursor_execute cl k query w of
             (Inl e, w1) \<Rightarrow> (Inl e, w1, [CursorExecute k query, Print (msg_query_failed e)])
           | (Inr _, w1) \<Rightarrow>
               (case cursor_fetchall cl k w1 of
                  (Inl e, w2) \<Rightarrow>
                    (Inl e, w2,
                     [CursorExecute k query, CursorFetchall k, Print (msg_query_failed e)])
                | (Inr results, w2) \<Rightarrow>
                    (Inr results, w2, [CursorExecute k query, CursorFetchall k]))))"

text \<open>\<^verbatim>\<open>[desc[0] for desc in description]\<close>: fails at the first empty tuple.\<close>

fun column_names :: "row list \<Rightarrow> exn + pyval list" where
  "column_names [] = Inr []"
| "column_names ([] # ds) = Inl index_out_of_range"
| "column_names ((name # _) # ds) =
     (case column_names ds of Inl e \<Rightarrow> Inl e | Inr names \<Rightarrow> Inr (name # names))"

text \<open>
  The part of \<^verbatim>\<open>query_to_dataframe\<close> after \<^verbatim>\<open>execute_query\<close> has returned:
  read the description, take the names, build the table, print the row count.
\<close>

definition build_frame :: "'w client \<Rightarrow> DatabricksConnection \<Rightarrow> row list \<Rightarrow> 'w
    \<Rightarrow> (exn + dataframe) \<times> 'w \<times> event list" where
  "build_frame cl self results w =
     (case cursor self of
        None \<Rightarrow> (Inl (none_has_no_attribute ''description''), w, [])
      | Some k \<Rightarrow>
          (case cursor_description cl k w of
             (Inl e, w1) \<Rightarrow> (Inl e, w1, [CursorDescription k])
           | (Inr None, w1) \<Rightarrow> (Inl none_not_iterable, w1, [CursorDescription k])
           | (Inr (Some ds), w1) \<Rightarrow>
               (case column_names ds of
                  Inl e \<Rightarrow> (Inl e, w1, [CursorDescription k])
                | Inr cols \<Rightarrow>
                    (case DataFrame results cols of
                       Inl e \<Rightarrow> (Inl e, w1, [CursorDescription k, NewDataFrame results cols])
                     | Inr df \<Rightarrow>
                         (Inr df, w1,
                          [CursorDescription k, NewDataFrame results cols,
                           Print (msg_retrieved (len_df df))])))))"

text \<open>
  \<^verbatim>\<open>query_to_dataframe\<close>: its \<^verbatim>\<open>try\<close> encloses the call of
  \<^verbatim>\<open>execute_query\<close> as well, so an exception that leaves \<^verbatim>\<open>execute_query\<close>
  (already printed there) is caught and printed here too.
\<close>

definition query_to_dataframe :: "'w client \<Rightarrow> DatabricksConnection \<Rightarrow> string \<Rightarrow> 'w
    \<Rightarrow> (exn + dataframe) \<times> 'w \<times> event list" where
  "query_to_dataframe cl self query w =
     (case execute_query cl self query w of
        (Inl e, w1, t1) \<Rightarrow> (Inl e, w1, t1 @ [Print (msg_convert_failed e)])
      | (Inr results, w1, t1) \<Rightarrow>
          (case build_frame cl self results w1 of
             (Inl e, w2, t2) \<Rightarrow> (Inl e, w2, t1 @ t2 @ [Print (msg_convert_failed e)])
           | (Inr df, w2, t2) \<Rightarrow> (Inr df, w2, t1 @ t2)))"

text \<open>
  \<^verbatim>\<open>close\<close>: \<^verbatim>\<open>if self.cursor:\<close> and \<^verbatim>\<open>if self.connection:\<close> test the stored
  objects, which are truthy whenever present. There is no handler and no assignment: an
  exception of either library call leaves \<^verbatim>\<open>close\<close> at once, and the handle is
  returned as it was.
\<close>

definition close :: "'w client \<Rightarrow> DatabricksConnection \<Rightarrow> 'w
    \<Rightarrow> (exn + unit) \<times> DatabricksConnection \<times> 'w \<times> event list" where
  "close cl self w =
     (case (case cursor self of
              None \<Rightarrow> (Inr (), w, [])
            | Some k \<Rightarrow> (case cursor_close cl k w of (r, w1) \<Rightarrow> (r, w1, [CursorClose k]))) of
        (Inl e, w1, t1) \<Rightarrow> (Inl e, self, w1, t1)
      | (Inr _, w1, t1) \<Rightarrow>
          (case connection self of
             None \<Rightarrow> (Inr (), self, w1, t1)
           | Some c \<Rightarrow>
               (case connection_close cl c w1 of
                  (Inl e, w2) \<Rightarrow> (Inl e, self, w2, t1 @ [ConnClose c])
                | (Inr _, w2) \<Rightarrow> (Inr (), self, w2, t1 @ [ConnClose c, Print msg_closed]))))"

section \<open>The convenience entry point\<close>

datatype result = Rows "row list" | Frame dataframe

text \<open>The body of the \<^verbatim>\<open>try\<close> in \<^verbatim>\<open>pull_databricks_data\<close>.\<close>

definition pull_body :: "'w client \<Rightarrow> DatabricksConnection \<Rightarrow> string \<Rightarrow> bool \<Rightarrow> 'w
    \<Rightarrow> (exn + result) \<times> DatabricksConnection \<times> 'w \<times> event list" where
  "pull_body cl db query as_dataframe w =
     (case connect cl db w of
        (Inl e, db1, w1, t1) \<Rightarrow> (Inl e, db1, w1, t1)
      | (Inr _, db1, w1, t1) \<Rightarrow>
          (if as_dataframe
           then (case query_to_dataframe cl db1 query w1 of
                   (Inl e, w2, t2) \<Rightarrow> (Inl e, db1, w2, t1 @ t2)
                 | (Inr df, w2, t2) \<Rightarrow> (Inr (Frame df), db1, w2, t1 @ t2))
           else (case execute_query cl db1 query w1 of
                   (Inl e, w2, t2) \<Rightarrow> (Inl e, db1, w2, t1 @ t2)
                 | (Inr rs, w2, t2) \<Rightarrow> (Inr (Rows rs), db1, w2, t1 @ t2))))"

text \<open>
  \<^verbatim>\<open>try: ... finally: db.close()\<close>: the \<^verbatim>\<open>finally\<close> clause runs after the body
  however it ended; an exception raised in it replaces the pending result or exception,
  otherwise that one stands.
\<close>

definition pull_databricks_data :: "'w client \<Rightarrow> string \<Rightarrow> string \<Rightarrow> string \<Rightarrow> string \<Rightarrow> bool
    \<Rightarrow> 'w \<Rightarrow> (exn + result) \<times> 'w \<times> event list" where
  "pull_databricks_data cl host path token query as_dataframe w =
     (case pull_body cl (init host path token None None) query as_dataframe w of
        (r, db1, w1, t1) \<Rightarrow>
          (case close cl db1 w1 of
             (Inl e, _, w2, t2) \<Rightarrow> (Inl e, w2, t1 @ t2)
           | (Inr _, _, w2, t2) \<Rightarrow> (r, w2, t1 @ t2)))"

section \<open>A scripted client\<close>

text \<open>
  A client for concrete runs: one session and one cursor, both numbered 1; the cursor
  has a description once a statement has been executed; the fetch returns the two rows
  \<^verbatim>\<open>(1, "a")\<close> and \<^verbatim>\<open>(2, "b")\<close> under the columns \<^verbatim>\<open>id\<close> and \<^verbatim>\<open>name\<close>.
\<close>

record demo_world =
  session_open :: bool
  cursor_open :: bool
  executed :: bool

definition demo_start :: demo_world where
  "demo_start = \<lparr>session_open = False, cursor_open = False, executed = False\<rparr>"

definition demo_rows :: "row list" where
  "demo_rows = [[PyInt 1, PyStr ''a''], [PyInt 2, PyStr ''b'']]"

definition demo_description :: "row list" where
  "demo_description =
     [[PyStr ''id'', PyStr ''int'', PyNone, PyNone, PyNone, PyNone, PyNone],
      [PyStr ''name'', PyStr ''string'', PyNone, PyNone, PyNone, PyNone, PyNone]]"

definition demo_client :: "demo_world client" where
  "demo_client =
     \<lparr>sql_connect = (\<lambda>host path auth token w. (Inr 1, w\<lparr>session_open := True\<rparr>)),
      connection_cursor = (\<lambda>c w. (Inr 1, w\<lparr>cursor_open := True\<rparr>)),
      cursor_execute = (\<lambda>k q w. (Inr (), w\<lparr>executed := True\<rparr>)),
      cursor_fetchall = (\<lambda>k w. (Inr demo_rows, w)),
      cursor_description = (\<lambda>k w. (Inr (if executed w then Some demo_description else None), w)),
      cursor_close = (\<lambda>k w. (Inr (), w\<lparr>cursor_open := False\<rparr>)),
      connection_close = (\<lambda>c w. (Inr (), w\<lparr>session_open := False\<rparr>))\<rparr>"

definition boom :: exn where
  "boom = Exn ''Error'' ''boom''"

definition demo_handle :: DatabricksConnection where
  "demo_handle = init ''adb-1.azuredatabricks.net'' ''/sql/1.0/warehouses/1'' ''secret'' None None"

definition demo_connected :: DatabricksConnection where
  "demo_connected = demo_handle\<lparr>connection := Some 1, cursor := Some 1\<rparr>"

definition failing_connect :: "demo_world client" where
  "failing_connect = demo_client\<lparr>sql_connect := (\<lambda>host path auth token w. (Inl boom, w))\<rparr>"

definition failing_execute :: "demo_world client" where
  "failing_execute = demo_client\<lparr>cursor_execute := (\<lambda>k q w. (Inl boom, w))\<rparr>"


section \<open>Where a failure comes from\<close>



text \<open>
  The library calls \<^verbatim>\<open>close\<close> makes for a handle when none of them raises: one for
  the stored cursor, then one for the stored session; nothing for an absent field.
\<close>

definition close_calls :: "DatabricksConnection \<Rightarrow> event list" where
  "close_calls self =
     (case cursor self of None \<Rightarrow> [] | Some k \<Rightarrow> [CursorClose k])
     @ (case connection self of None \<Rightarrow> [] | Some c \<Rightarrow> [ConnClose c])"

text \<open>The scripted world once session and cursor are open.\<close>

definition demo_open :: demo_world where
  "demo_open = \<lparr>session_open = True, cursor_open = True, executed = False\<rparr>"

text \<open>A client whose session is created but whose \<^verbatim>\<open>cursor()\<close> raises.\<close>

definition failing_cursor :: "demo_world client" where
  "failing_cursor = demo_client\<lparr>connection_cursor := (\<lambda>c w. (Inl boom, w))\<rparr>"

text \<open>
  The trace with the token argument of \<^verbatim>\<open>sql.connect\<close> blanked: what a run shows
  apart from the credential handed to the client.
\<close>

fun hide_token :: "event \<Rightarrow> event" where
  "hide_token (SqlConnect host path auth token) = SqlConnect host path auth []"
| "hide_token ev = ev"

text \<open>A client whose \<^verbatim>\<open>sql.connect\<close> rejects every token with the same message.\<close>

definition rejecting_client :: "demo_world client" where
  "rejecting_client =
     demo_client\<lparr>sql_connect :=
       (\<lambda>host path auth token w. (Inl (Exn ''Error'' ''Invalid access token''), w))\<rparr>"

definition close_error :: exn where
  "close_error = Exn ''Error'' ''session already gone''"

text \<open>A client whose \<^verbatim>\<open>execute\<close> raises and whose session then fails to close.\<close>

definition failing_execute_and_close :: "demo_world client" where
  "failing_execute_and_close =
     demo_client\<lparr>cursor_execute := (\<lambda>k q w. (Inl boom, w)),
                 connection_close := (\<lambda>c w. (Inl close_error, w))\<rparr>"

text \<open>A client whose cursor fails to close.\<close>

definition failing_cursor_close :: "demo_world client" where
  "failing_cursor_close = demo_client\<lparr>cursor_close := (\<lambda>k w. (Inl close_error, w))\<rparr>"

text \<open>
  A client as it answers a statement that returns no rows: the execution succeeds, the
  fetch returns the empty list and the cursor has no description.
\<close>

definition statement_client :: "demo_world client" where
  "statement_client =
     demo_client\<lparr>cursor_fetchall := (\<lambda>k w. (Inr [], w)),
                 cursor_description := (\<lambda>k w. (Inr None, w))\<rparr>"

text \<open>A client whose \<^verbatim>\<open>cursor()\<close> raises and whose session then fails to close.\<close>

definition failing_cursor_and_close :: "demo_world client" where
  "failing_cursor_and_close =
     demo_client\<lparr>connection_cursor := (\<lambda>c w. (Inl boom, w)),
                 connection_close := (\<lambda>c w. (Inl close_error, w))\<rparr>"

section \<open>Auxiliary facts\<close>


lemma execute_query_Inr:
  assumes "execute_query cl self q w = (Inr rs, w2, t2)"
  shows "\<exists>k w1. cursor self = Some k \<and> cursor_execute cl k q w = (Inr (), w1)
           \<and> cursor_fetchall cl k w1 = (Inr rs, w2)
           \<and> t2 = [CursorExecute k q, CursorFetchall k]"
proof (cases "cursor self")
  case None
  with assms show ?thesis by (simp add: execute_query_def Let_def)
next
  case (Some k)
  obtain r1 w1 where e: "cursor_execute cl k q w = (r1, w1)" by (cases "cursor_execute cl k q w")
  obtain r2 w3 where f: "cursor_fetchall cl k w1 = (r2, w3)" by (cases "cursor_fetchall cl k w1")
  from assms Some e f show ?thesis
    by (cases r1; cases r2) (simp_all add: execute_query_def)
qed









section \<open>Reporting of failures\<close>





lemma close_handle:
  "close cl self w = (r, self', w', t) \<Longrightarrow> self' = self"
  by (auto simp: close_def split: option.splits prod.splits sum.splits)

lemma close_absent:
  "cursor self = None \<Longrightarrow> connection self = None \<Longrightarrow> close cl self w = (Inr (), self, w, [])"
  by (simp add: close_def)

lemma close_total:
  assumes ck: "\<forall>k w. fst (cursor_close cl k w) = Inr ()"
    and cc: "\<forall>c w. fst (connection_close cl c w) = Inr ()"
  shows "\<exists>w1 t1. close cl self w = (Inr (), self, w1, t1) \<and> filter is_close_call t1 = close_calls self"
proof -
  obtain wa ta where a: "(case cursor self of None \<Rightarrow> (Inr (), w, [])
      | Some k \<Rightarrow> (case cursor_close cl k w of (r, w1) \<Rightarrow> (r, w1, [CursorClose k])))
      = (Inr (), wa, ta)"
    and ta: "ta = (case cursor self of None \<Rightarrow> [] | Some k \<Rightarrow> [CursorClose k])"
  proof (cases "cursor self")
    case None
    then show ?thesis using that by simp
  next
    case (Some k)
    obtain r w1 where x: "cursor_close cl k w = (r, w1)" by (cases "cursor_close cl k w")
    with ck [rule_format, of k w] have "r = Inr ()" by simp
    with Some x show ?thesis using that by simp
  qed
  show ?thesis
  proof (cases "connection self")
    case None
    with a ta show ?thesis by (simp add: close_def close_calls_def split: option.splits)
  next
    case (Some c)
    obtain r w2 where x: "connection_close cl c wa = (r, w2)" by (cases "connection_close cl c wa")
    with cc [rule_format, of c wa] have "r = Inr ()" by simp
    with Some x a ta show ?thesis by (simp add: close_def close_calls_def split: option.splits)
  qed
qed

section \<open>Closing\<close>

text \<open>
  Claim C2, as the code has it. Provided the library's \<^verbatim>\<open>cursor.close()\<close> and
  \<^verbatim>\<open>connection.close()\<close> return normally, \<^verbatim>\<open>close\<close> returns normally on
  every handle and in every world, and so does a second \<^verbatim>\<open>close\<close> right after
  it. An absent cursor or session is skipped; on a handle that was never connected
  nothing is called and nothing is printed. A stored cursor or session is not skipped
  when it has been closed before: the second \<^verbatim>\<open>close\<close> makes the same library
  calls as the first.
\<close>

theorem C2_close_twice_returns:
  assumes ck: "\<forall>k w. fst (cursor_close cl k w) = Inr ()"
    and cc: "\<forall>c w. fst (connection_close cl c w) = Inr ()"
  shows "\<exists>w1 t1 w2 t2.
           close cl self w = (Inr (), self, w1, t1)
         \<and> close cl self w1 = (Inr (), self, w2, t2)
         \<and> filter is_close_call t1 = close_calls self
         \<and> filter is_close_call t2 = close_calls self
         \<and> (cursor self = None \<and> connection self = None \<longrightarrow> t1 = [] \<and> w1 = w)"
proof -
  from close_total [OF ck cc] obtain w1 t1
    where a: "close cl self w = (Inr (), self, w1, t1) \<and> filter is_close_call t1 = close_calls self"
    by blast
  from close_total [OF ck cc] obtain w2 t2
    where b: "close cl self w1 = (Inr (), self, w2, t2) \<and> filter is_close_call t2 = close_calls self"
    by blast
  have "cursor self = None \<and> connection self = None \<longrightarrow> t1 = [] \<and> w1 = w"
  proof
    assume "cursor self = None \<and> connection self = None"
    then have "close cl self w = (Inr (), self, w, [])" by (simp add: close_absent)
    with a show "t1 = [] \<and> w1 = w" by simp
  qed
  with a b show ?thesis by blast
qed

text \<open>
  Claim C2 as stated fails in its last part: after \<^verbatim>\<open>connect\<close> and
  \<^verbatim>\<open>close\<close>, a second \<^verbatim>\<open>close\<close> does not skip the cursor and the session
  that are already closed; it calls the library's close on both again and prints the
  success message again.
\<close>

theorem C2_counterexample:
  "connect demo_client demo_handle demo_start =
     (Inr (), demo_connected, demo_open,
      [SqlConnect (hostname demo_handle) (http_path demo_handle) ''pat''
         (personal_access_token demo_handle), ConnCursor 1, Print msg_connected])
   \<and> close demo_client demo_connected demo_open =
     (Inr (), demo_connected, demo_start, [CursorClose 1, ConnClose 1, Print msg_closed])
   \<and> close demo_client demo_connected demo_start =
     (Inr (), demo_connected, demo_start, [CursorClose 1, ConnClose 1, Print msg_closed])
   \<and> filter is_close_call [CursorClose 1, ConnClose 1, Print msg_closed] \<noteq> []"
  by (simp add: connect_def close_def demo_client_def demo_connected_def demo_open_def
      demo_start_def demo_handle_def init_def)

text \<open>
  The theorem of C2 at the scripted client, whose close calls return normally: on the
  connected handle, before and after a first close, and on the fresh handle.
\<close>

theorem C2_witness:
  "close demo_client demo_connected demo_open =
     (Inr (), demo_connected, demo_start, [CursorClose 1, ConnClose 1, Print msg_closed])
   \<and> close demo_client demo_connected demo_start =
     (Inr (), demo_connected, demo_start, [CursorClose 1, ConnClose 1, Print msg_closed])
   \<and> close_calls demo_connected = [CursorClose 1, ConnClose 1]
   \<and> close demo_client demo_handle demo_start = (Inr (), demo_handle, demo_start, [])
   \<and> close_calls demo_handle = []"
proof -
  have ck: "\<forall>k w. fst (cursor_close demo_client k w) = Inr ()"
    by (simp add: demo_client_def)
  have cc: "\<forall>c w. fst (connection_close demo_client c w) = Inr ()"
    by (simp add: demo_client_def)
  from C2_close_twice_returns [OF ck cc, of demo_connected demo_open] C2_close_twice_returns [OF ck cc, of demo_handle demo_start]
  show ?thesis
    by (simp add: close_def close_calls_def demo_client_def demo_connected_def demo_open_def
      demo_start_def demo_handle_def init_def)
qed

lemma connect_Inr:
  assumes "connect cl self w = (Inr u, self1, w1, t1)"
  shows "\<exists>c k w0. sql_connect cl (hostname self) (http_path self) ''pat''
             (personal_access_token self) w = (Inr c, w0)
           \<and> connection_cursor cl c w0 = (Inr k, w1)
           \<and> self1 = self\<lparr>connection := Some c, cursor := Some k\<rparr>
           \<and> t1 = [SqlConnect (hostname self) (http_path self) ''pat''
                    (personal_access_token self), ConnCursor c, Print msg_connected]"
proof -
  obtain r0 w0 where a: "sql_connect cl (hostname self) (http_path self) ''pat''
      (personal_access_token self) w = (r0, w0)"
    by (cases "sql_connect cl (hostname self) (http_path self) ''pat''
      (personal_access_token self) w")
  show ?thesis
  proof (cases r0)
    case (Inl e')
    with assms a show ?thesis by (simp add: connect_def Let_def)
  next
    case (Inr c)
    obtain r2 w2 where b: "connection_cursor cl c w0 = (r2, w2)"
      by (cases "connection_cursor cl c w0")
    from assms a Inr b show ?thesis
      by (cases r2) (auto simp: connect_def Let_def)
  qed
qed

lemma close_both_Inr:
  assumes "close cl self w = (Inr u, self2, w2, t2)"
    and "cursor self = Some k" and "connection self = Some c"
  shows "t2 = [CursorClose k, ConnClose c, Print msg_closed]"
proof -
  obtain r1 w1 where a: "cursor_close cl k w = (r1, w1)" by (cases "cursor_close cl k w")
  obtain r3 w3 where b: "connection_close cl c w1 = (r3, w3)"
    by (cases "connection_close cl c w1")
  from assms a b show ?thesis
    by (cases r1; cases r3) (simp_all add: close_def)
qed

text \<open>
  Claim C3, as the code has it. When \<^verbatim>\<open>connect\<close> has succeeded and the
  \<^verbatim>\<open>close\<close> right after it returns, the cursor and then the session have been
  closed through the library, once each, and the handle is unchanged by
  \<^verbatim>\<open>close\<close>: both fields still store the objects.
\<close>

theorem C3_open_close_releases_keeps_fields:
  assumes "connect cl self w = (Inr (), self1, w1, t1)"
    and "close cl self1 w1 = (Inr (), self2, w2, t2)"
  shows "\<exists>c k. self2 = self1 \<and> connection self2 = Some c \<and> cursor self2 = Some k
           \<and> t2 = [CursorClose k, ConnClose c, Print msg_closed]"
proof -
  from connect_Inr [OF assms(1)] obtain c k
    where s1: "self1 = self\<lparr>connection := Some c, cursor := Some k\<rparr>" by blast
  then have f: "cursor self1 = Some k" "connection self1 = Some c" by simp_all
  from close_handle [OF assms(2)] have e: "self2 = self1" .
  from close_both_Inr [OF assms(2) f] e f show ?thesis by simp
qed

text \<open>
  Claim C3 as stated fails: after \<^verbatim>\<open>connect\<close> and \<^verbatim>\<open>close\<close> on the
  scripted client the handle still holds a session and a cursor; neither field is
  \<^verbatim>\<open>None\<close>.
\<close>

theorem C3_counterexample:
  "connect demo_client demo_handle demo_start =
     (Inr (), demo_connected, demo_open,
      [SqlConnect (hostname demo_handle) (http_path demo_handle) ''pat''
         (personal_access_token demo_handle), ConnCursor 1, Print msg_connected])
   \<and> close demo_client demo_connected demo_open =
     (Inr (), demo_connected, demo_start, [CursorClose 1, ConnClose 1, Print msg_closed])
   \<and> connection demo_connected \<noteq> None \<and> cursor demo_connected \<noteq> None"
  by (simp add: connect_def close_def demo_client_def demo_connected_def demo_open_def
      demo_start_def demo_handle_def init_def)

text \<open>The theorem of C3 at the scripted client.\<close>

theorem C3_witness:
  "connect demo_client demo_handle demo_start =
     (Inr (), demo_connected, demo_open,
      [SqlConnect (hostname demo_handle) (http_path demo_handle) ''pat''
         (personal_access_token demo_handle), ConnCursor 1, Print msg_connected])
   \<and> close demo_client demo_connected demo_open =
     (Inr (), demo_connected, demo_start, [CursorClose 1, ConnClose 1, Print msg_closed])
   \<and> connection demo_connected = Some 1 \<and> cursor demo_connected = Some 1"
proof -
  have a: "connect demo_client demo_handle demo_start =
     (Inr (), demo_connected, demo_open,
      [SqlConnect (hostname demo_handle) (http_path demo_handle) ''pat''
         (personal_access_token demo_handle), ConnCursor 1, Print msg_connected])"
    by (simp add: connect_def demo_client_def demo_connected_def demo_open_def
      demo_start_def demo_handle_def init_def)
  have b: "close demo_client demo_connected demo_open =
     (Inr (), demo_connected, demo_start, [CursorClose 1, ConnClose 1, Print msg_closed])"
    by (simp add: close_def demo_client_def demo_connected_def demo_open_def demo_start_def)
  from C3_open_close_releases_keeps_fields [OF a b] a b show ?thesis by (simp add: demo_connected_def)
qed

text \<open>
  Claim C10, as the code has it. When \<^verbatim>\<open>sql.connect\<close> returns a session and
  \<^verbatim>\<open>connection.cursor()\<close> raises, \<^verbatim>\<open>connect\<close> raises that exception and
  leaves the handle with the session stored and the cursor absent. A \<^verbatim>\<open>close\<close>
  after it tests the two fields independently: it does not touch the absent cursor and
  makes one library call, the close of the session. When that call returns,
  \<^verbatim>\<open>close\<close> prints the success message and returns; when it raises,
  \<^verbatim>\<open>close\<close> raises the same exception and prints nothing.
\<close>

theorem C10_partial_open_then_close:
  assumes "sql_connect cl (hostname self) (http_path self) ''pat''
             (personal_access_token self) w = (Inr c, w1)"
    and "connection_cursor cl c w1 = (Inl e, w2)"
    and "cursor self = None"
  shows "connect cl self w =
           (Inl e, self\<lparr>connection := Some c\<rparr>, w2,
            [SqlConnect (hostname self) (http_path self) ''pat'' (personal_access_token self),
             ConnCursor c, Print (msg_connect_failed e)])
       \<and> cursor (self\<lparr>connection := Some c\<rparr>) = None
       \<and> connection (self\<lparr>connection := Some c\<rparr>) = Some c
       \<and> close cl (self\<lparr>connection := Some c\<rparr>) w2 =
           (case connection_close cl c w2 of
              (Inl e', w3) \<Rightarrow> (Inl e', self\<lparr>connection := Some c\<rparr>, w3, [ConnClose c])
            | (Inr u, w3) \<Rightarrow>
                (Inr (), self\<lparr>connection := Some c\<rparr>, w3, [ConnClose c, Print msg_closed]))"
proof -
  obtain r3 w3 where x: "connection_close cl c w2 = (r3, w3)"
    by (cases "connection_close cl c w2")
  from assms x show ?thesis
    by (cases r3) (simp_all add: connect_def close_def)
qed

text \<open>
  Claim C10 as stated fails in its last part: with a session whose
  \<^verbatim>\<open>close()\<close> raises, the \<^verbatim>\<open>close\<close> after the partial open raises too.
\<close>

theorem C10_counterexample:
  "connect failing_cursor_and_close demo_handle demo_start =
     (Inl boom, demo_handle\<lparr>connection := Some 1\<rparr>, demo_start\<lparr>session_open := True\<rparr>,
      [SqlConnect (hostname demo_handle) (http_path demo_handle) ''pat''
         (personal_access_token demo_handle),
       ConnCursor 1, Print (msg_connect_failed boom)])
   \<and> close failing_cursor_and_close (demo_handle\<lparr>connection := Some 1\<rparr>)
        (demo_start\<lparr>session_open := True\<rparr>) =
     (Inl close_error, demo_handle\<lparr>connection := Some 1\<rparr>,
      demo_start\<lparr>session_open := True\<rparr>, [ConnClose 1])"
  by (simp add: connect_def close_def failing_cursor_and_close_def demo_client_def
      demo_handle_def init_def)

text \<open>
  The theorem of C10 at a client whose \<^verbatim>\<open>cursor()\<close> raises and whose session
  closes normally, and at one whose session fails to close.
\<close>

theorem C10_witness:
  "connect failing_cursor demo_handle demo_start =
     (Inl boom, demo_handle\<lparr>connection := Some 1\<rparr>, demo_start\<lparr>session_open := True\<rparr>,
      [SqlConnect (hostname demo_handle) (http_path demo_handle) ''pat''
         (personal_access_token demo_handle),
       ConnCursor 1, Print (msg_connect_failed boom)])
   \<and> close failing_cursor (demo_handle\<lparr>connection := Some 1\<rparr>)
        (demo_start\<lparr>session_open := True\<rparr>) =
     (Inr (), demo_handle\<lparr>connection := Some 1\<rparr>, demo_start,
      [ConnClose 1, Print msg_closed])
   \<and> close failing_cursor_and_close (demo_handle\<lparr>connection := Some 1\<rparr>)
        (demo_start\<lparr>session_open := True\<rparr>) =
     (Inl close_error, demo_handle\<lparr>connection := Some 1\<rparr>,
      demo_start\<lparr>session_open := True\<rparr>, [ConnClose 1])"
proof -
  have a: "sql_connect failing_cursor (hostname demo_handle) (http_path demo_handle) ''pat''
             (personal_access_token demo_handle) demo_start
           = (Inr 1, demo_start\<lparr>session_open := True\<rparr>)"
    by (simp add: failing_cursor_def demo_client_def)
  have b: "connection_cursor failing_cursor 1 (demo_start\<lparr>session_open := True\<rparr>)
           = (Inl boom, demo_start\<lparr>session_open := True\<rparr>)"
    by (simp add: failing_cursor_def demo_client_def)
  have a': "sql_connect failing_cursor_and_close (hostname demo_handle) (http_path demo_handle)
             ''pat'' (personal_access_token demo_handle) demo_start
           = (Inr 1, demo_start\<lparr>session_open := True\<rparr>)"
    by (simp add: failing_cursor_and_close_def demo_client_def)
  have b': "connection_cursor failing_cursor_and_close 1 (demo_start\<lparr>session_open := True\<rparr>)
           = (Inl boom, demo_start\<lparr>session_open := True\<rparr>)"
    by (simp add: failing_cursor_and_close_def demo_client_def)
  have c: "cursor demo_handle = None"
    by (simp add: demo_handle_def init_def)
  have d: "connection_close failing_cursor 1 (demo_start\<lparr>session_open := True\<rparr>)
           = (Inr (), demo_start)"
    by (simp add: failing_cursor_def demo_client_def demo_start_def)
  have d': "connection_close failing_cursor_and_close 1 (demo_start\<lparr>session_open := True\<rparr>)
           = (Inl close_error, demo_start\<lparr>session_open := True\<rparr>)"
    by (simp add: failing_cursor_and_close_def demo_client_def)
  from C10_partial_open_then_close [OF a b c] C10_partial_open_then_close [OF a' b' c] d d' show ?thesis by simp
qed

lemma DataFrame_Inr:
  assumes "DataFrame rs cols = Inr df"
  shows "columns df = cols \<and> data df = rs \<and> (\<forall>r \<in> set rs. length r = length cols)"
proof (cases "list_all (\<lambda>r. length r = length cols) rs")
  case True
  with assms show ?thesis by (auto simp: DataFrame_def list_all_iff)
next
  case False
  with assms show ?thesis by (simp add: DataFrame_def)
qed

lemma build_frame_Inr:
  assumes "build_frame cl self rs w = (Inr df, w2, t2)"
  shows "\<exists>k ds. cursor self = Some k
           \<and> cursor_description cl k w = (Inr (Some ds), w2)
           \<and> column_names ds = Inr (columns df)
           \<and> DataFrame rs (columns df) = Inr df
           \<and> t2 = [CursorDescription k, NewDataFrame rs (columns df),
                   Print (msg_retrieved (len_df df))]"
proof (cases "cursor self")
  case None
  with assms show ?thesis by (simp add: build_frame_def)
next
  case (Some k)
  obtain r1 w1 where d: "cursor_description cl k w = (r1, w1)"
    by (cases "cursor_description cl k w")
  show ?thesis
  proof (cases r1)
    case (Inl e')
    with assms Some d show ?thesis by (simp add: build_frame_def)
  next
    case (Inr od)
    show ?thesis
    proof (cases od)
      case None
      with assms Some d Inr show ?thesis by (simp add: build_frame_def)
    next
      case ds: (Some ds)
      show ?thesis
      proof (cases "column_names ds")
        case (Inl e')
        with assms Some d Inr ds show ?thesis by (simp add: build_frame_def)
      next
        case cols: (Inr cols)
        show ?thesis
        proof (cases "DataFrame rs cols")
          case (Inl e')
          with assms Some d Inr ds cols show ?thesis by (simp add: build_frame_def)
        next
          case fr: (Inr df')
          from DataFrame_Inr [OF fr] have c: "columns df' = cols" by simp
          from assms Some d Inr ds cols fr have "df' = df \<and> w1 = w2 \<and>
            t2 = [CursorDescription k, NewDataFrame rs cols, Print (msg_retrieved (len_df df'))]"
            by (auto simp: build_frame_def)
          with Some d Inr ds cols fr c show ?thesis by simp
        qed
      qed
    qed
  qed
qed

lemma column_names_Inr:
  "column_names ds = Inr cols \<Longrightarrow> cols = map hd ds \<and> [] \<notin> set ds"
proof (induction ds arbitrary: cols rule: column_names.induct)
  case 1
  then show ?case by simp
next
  case (2 ds)
  then show ?case by simp
next
  case (3 name uu ds)
  then show ?case by (cases "column_names ds") auto
qed

lemma column_names_nonempty:
  "[] \<notin> set ds \<Longrightarrow> column_names ds = Inr (map hd ds)"
  by (induction ds rule: column_names.induct) simp_all

lemma query_to_dataframe_table:
  assumes "cursor self = Some k"
    and "cursor_execute cl k q w = (Inr (), w1)"
    and "cursor_fetchall cl k w1 = (Inr rs, w2)"
    and "cursor_description cl k w2 = (Inr (Some ds), w3)"
    and "[] \<notin> set ds"
    and "\<forall>r \<in> set rs. length r = length ds"
  shows "query_to_dataframe cl self q w =
           (Inr \<lparr>columns = map hd ds, data = rs\<rparr>, w3,
            [CursorExecute k q, CursorFetchall k, CursorDescription k,
             NewDataFrame rs (map hd ds), Print (msg_retrieved (length rs))])"
proof -
  from assms(1-3) have a: "execute_query cl self q w =
      (Inr rs, w2, [CursorExecute k q, CursorFetchall k])"
    by (simp add: execute_query_def)
  from assms(5) have c: "column_names ds = Inr (map hd ds)" by (rule column_names_nonempty)
  from assms(6) have f: "DataFrame rs (map hd ds) = Inr \<lparr>columns = map hd ds, data = rs\<rparr>"
    by (simp add: DataFrame_def list_all_iff)
  from assms(1,4) c f have b: "build_frame cl self rs w2 =
      (Inr \<lparr>columns = map hd ds, data = rs\<rparr>, w3,
       [CursorDescription k, NewDataFrame rs (map hd ds), Print (msg_retrieved (length rs))])"
    by (simp add: build_frame_def len_df_def)
  from a b show ?thesis by (simp add: query_to_dataframe_def)
qed

lemma query_to_dataframe_no_description:
  assumes "cursor self = Some k"
    and "cursor_execute cl k q w = (Inr (), w1)"
    and "cursor_fetchall cl k w1 = (Inr rs, w2)"
    and "cursor_description cl k w2 = (Inr None, w3)"
  shows "query_to_dataframe cl self q w =
           (Inl none_not_iterable, w3,
            [CursorExecute k q, CursorFetchall k, CursorDescription k,
             Print (msg_convert_failed none_not_iterable)])"
proof -
  from assms(1-3) have a: "execute_query cl self q w =
      (Inr rs, w2, [CursorExecute k q, CursorFetchall k])"
    by (simp add: execute_query_def)
  from assms(1,4) have b: "build_frame cl self rs w2 =
      (Inl none_not_iterable, w3, [CursorDescription k])"
    by (simp add: build_frame_def)
  from a b show ?thesis by (simp add: query_to_dataframe_def)
qed

lemma query_to_dataframe_Inr:
  assumes "query_to_dataframe cl self q w = (Inr df, w', t)"
  shows "\<exists>k w1 rs w2 ds.
           cursor self = Some k
         \<and> cursor_execute cl k q w = (Inr (), w1)
         \<and> cursor_fetchall cl k w1 = (Inr rs, w2)
         \<and> cursor_description cl k w2 = (Inr (Some ds), w')
         \<and> [] \<notin> set ds
         \<and> columns df = map hd ds
         \<and> (\<forall>r \<in> set (data df). length r = length (columns df))
         \<and> data df = rs
         \<and> len_df df = length rs"
proof -
  obtain r1 w2 t1 where x: "execute_query cl self q w = (r1, w2, t1)"
    by (cases "execute_query cl self q w")
  show ?thesis
  proof (cases r1)
    case (Inl e)
    with assms x show ?thesis by (simp add: query_to_dataframe_def)
  next
    case (Inr rs)
    obtain rb wb tb where b: "build_frame cl self rs w2 = (rb, wb, tb)"
      by (cases "build_frame cl self rs w2")
    from assms x Inr b have "rb = Inr df" "wb = w'"
      by (cases rb; simp add: query_to_dataframe_def)+
    with b have b': "build_frame cl self rs w2 = (Inr df, w', tb)" by simp
    from x Inr have x': "execute_query cl self q w = (Inr rs, w2, t1)" by simp
    from execute_query_Inr [OF x'] obtain k w1 where
      k: "cursor self = Some k" "cursor_execute cl k q w = (Inr (), w1)"
         "cursor_fetchall cl k w1 = (Inr rs, w2)" by blast
    from build_frame_Inr [OF b'] k(1) obtain ds where
      d: "cursor_description cl k w2 = (Inr (Some ds), w')"
         "column_names ds = Inr (columns df)" "DataFrame rs (columns df) = Inr df" by auto
    from column_names_Inr [OF d(2)] have n: "columns df = map hd ds" "[] \<notin> set ds"
      by simp_all
    from DataFrame_Inr [OF d(3)] have
      s: "data df = rs" "\<forall>r \<in> set rs. length r = length (columns df)" by simp_all
    from s have l: "len_df df = length rs" by (simp add: len_df_def)
    from k d(1) n s l show ?thesis by blast
  qed
qed

text \<open>
  Claim C5, as the code has it. A successful execution is not enough for a table: the
  cursor must also have a description, each of its tuples must have a first component,
  and every fetched row must be as wide as the description is long. Then, and only
  then, \<^verbatim>\<open>query_to_dataframe\<close> returns a table; its column names are the first
  components of the description read after the fetch, every row is as wide as the list
  of column names, and its rows are the fetched rows, so its row count is theirs. When
  the execution succeeds and the cursor has no description, \<^verbatim>\<open>query_to_dataframe\<close>
  raises the type error of iterating \<^verbatim>\<open>None\<close> and returns no table.
\<close>

theorem C5_table_shape:
  "(query_to_dataframe cl self q w = (Inr df, w', t) \<longrightarrow>
      (\<exists>k w1 rs w2 ds.
           cursor self = Some k
         \<and> cursor_execute cl k q w = (Inr (), w1)
         \<and> cursor_fetchall cl k w1 = (Inr rs, w2)
         \<and> cursor_description cl k w2 = (Inr (Some ds), w')
         \<and> [] \<notin> set ds
         \<and> columns df = map hd ds
         \<and> (\<forall>r \<in> set (data df). length r = length (columns df))
         \<and> data df = rs
         \<and> len_df df = length rs))
   \<and> (cursor self = Some k
       \<and> cursor_execute cl k q w = (Inr (), w1)
       \<and> cursor_fetchall cl k w1 = (Inr rs, w2)
       \<and> cursor_description cl k w2 = (Inr (Some ds), w3)
       \<and> [] \<notin> set ds
       \<and> (\<forall>r \<in> set rs. length r = length ds) \<longrightarrow>
       query_to_dataframe cl self q w =
           (Inr \<lparr>columns = map hd ds, data = rs\<rparr>, w3,
            [CursorExecute k q, CursorFetchall k, CursorDescription k,
             NewDataFrame rs (map hd ds), Print (msg_retrieved (length rs))]))
   \<and> (cursor self = Some k
       \<and> cursor_execute cl k q w = (Inr (), w1)
       \<and> cursor_fetchall cl k w1 = (Inr rs, w2)
       \<and> cursor_description cl k w2 = (Inr None, w3) \<longrightarrow>
       query_to_dataframe cl self q w =
           (Inl none_not_iterable, w3,
            [CursorExecute k q, CursorFetchall k, CursorDescription k,
             Print (msg_convert_failed none_not_iterable)]))"
proof (intro conjI impI)
  assume "query_to_dataframe cl self q w = (Inr df, w', t)"
  then show "\<exists>k w1 rs w2 ds.
           cursor self = Some k
         \<and> cursor_execute cl k q w = (Inr (), w1)
         \<and> cursor_fetchall cl k w1 = (Inr rs, w2)
         \<and> cursor_description cl k w2 = (Inr (Some ds), w')
         \<and> [] \<notin> set ds
         \<and> columns df = map hd ds
         \<and> (\<forall>r \<in> set (data df). length r = length (columns df))
         \<and> data df = rs
         \<and> len_df df = length rs"
    by (rule query_to_dataframe_Inr)
next
  assume "cursor self = Some k
       \<and> cursor_execute cl k q w = (Inr (), w1)
       \<and> cursor_fetchall cl k w1 = (Inr rs, w2)
       \<and> cursor_description cl k w2 = (Inr (Some ds), w3)
       \<and> [] \<notin> set ds
       \<and> (\<forall>r \<in> set rs. length r = length ds)"
  then show "query_to_dataframe cl self q w =
           (Inr \<lparr>columns = map hd ds, data = rs\<rparr>, w3,
            [CursorExecute k q, CursorFetchall k, CursorDescription k,
             NewDataFrame rs (map hd ds), Print (msg_retrieved (length rs))])"
    by (simp add: query_to_dataframe_table)
next
  assume "cursor self = Some k
       \<and> cursor_execute cl k q w = (Inr (), w1)
       \<and> cursor_fetchall cl k w1 = (Inr rs, w2)
       \<and> cursor_description cl k w2 = (Inr None, w3)"
  then show "query_to_dataframe cl self q w =
           (Inl none_not_iterable, w3,
            [CursorExecute k q, CursorFetchall k, CursorDescription k,
             Print (msg_convert_failed none_not_iterable)])"
    by (simp add: query_to_dataframe_no_description)
qed

text \<open>
  Claim C5 as stated fails: for a statement that returns no rows the execution and the
  fetch succeed, the cursor has no description, and \<^verbatim>\<open>query_to_dataframe\<close> raises
  instead of producing a table.
\<close>

theorem C5_counterexample:
  "execute_query statement_client demo_connected ''CREATE TABLE t (id INT)'' demo_open =
     (Inr [], demo_open\<lparr>executed := True\<rparr>,
      [CursorExecute 1 ''CREATE TABLE t (id INT)'', CursorFetchall 1])
   \<and> query_to_dataframe statement_client demo_connected ''CREATE TABLE t (id INT)'' demo_open =
     (Inl none_not_iterable, demo_open\<lparr>executed := True\<rparr>,
      [CursorExecute 1 ''CREATE TABLE t (id INT)'', CursorFetchall 1, CursorDescription 1,
       Print (msg_convert_failed none_not_iterable)])"
proof -
  have a: "execute_query statement_client demo_connected ''CREATE TABLE t (id INT)'' demo_open =
     (Inr [], demo_open\<lparr>executed := True\<rparr>,
      [CursorExecute 1 ''CREATE TABLE t (id INT)'', CursorFetchall 1])"
    by (simp add: execute_query_def statement_client_def demo_client_def demo_connected_def)
  have b: "build_frame statement_client demo_connected [] (demo_open\<lparr>executed := True\<rparr>) =
     (Inl none_not_iterable, demo_open\<lparr>executed := True\<rparr>, [CursorDescription 1])"
    by (simp add: build_frame_def statement_client_def demo_client_def demo_connected_def)
  from a b show ?thesis by (simp add: query_to_dataframe_def)
qed

text \<open>
  The theorem of C5 at the scripted client, which returns the example table, and at the
  client that answers a statement without rows, which returns none.
\<close>

theorem C5_witness:
  "query_to_dataframe demo_client demo_connected ''SELECT 1'' demo_open =
     (Inr \<lparr>columns = [PyStr ''id'', PyStr ''name''], data = demo_rows\<rparr>,
      demo_open\<lparr>executed := True\<rparr>,
      [CursorExecute 1 ''SELECT 1'', CursorFetchall 1, CursorDescription 1,
       NewDataFrame demo_rows [PyStr ''id'', PyStr ''name''], Print (msg_retrieved 2)])
   \<and> query_to_dataframe statement_client demo_connected ''CREATE TABLE t (id INT)'' demo_open =
     (Inl none_not_iterable, demo_open\<lparr>executed := True\<rparr>,
      [CursorExecute 1 ''CREATE TABLE t (id INT)'', CursorFetchall 1, CursorDescription 1,
       Print (msg_convert_failed none_not_iterable)])
   \<and> list_all (\<lambda>r. length r = 2) demo_rows"
proof -
  have a: "cursor demo_connected = Some 1
       \<and> cursor_execute demo_client 1 ''SELECT 1'' demo_open
            = (Inr (), demo_open\<lparr>executed := True\<rparr>)
       \<and> cursor_fetchall demo_client 1 (demo_open\<lparr>executed := True\<rparr>)
            = (Inr demo_rows, demo_open\<lparr>executed := True\<rparr>)
       \<and> cursor_description demo_client 1 (demo_open\<lparr>executed := True\<rparr>)
            = (Inr (Some demo_description), demo_open\<lparr>executed := True\<rparr>)
       \<and> [] \<notin> set demo_description
       \<and> (\<forall>r \<in> set demo_rows. length r = length demo_description)"
    by (simp add: demo_client_def demo_connected_def demo_description_def demo_rows_def)
  have b: "cursor demo_connected = Some 1
       \<and> cursor_execute statement_client 1 ''CREATE TABLE t (id INT)'' demo_open
            = (Inr (), demo_open\<lparr>executed := True\<rparr>)
       \<and> cursor_fetchall statement_client 1 (demo_open\<lparr>executed := True\<rparr>)
            = (Inr [], demo_open\<lparr>executed := True\<rparr>)
       \<and> cursor_description statement_client 1 (demo_open\<lparr>executed := True\<rparr>)
            = (Inr None, demo_open\<lparr>executed := True\<rparr>)"
    by (simp add: statement_client_def demo_client_def demo_connected_def)
  have 1: "query_to_dataframe demo_client demo_connected ''SELECT 1'' demo_open =
     (Inr \<lparr>columns = map hd demo_description, data = demo_rows\<rparr>,
      demo_open\<lparr>executed := True\<rparr>,
      [CursorExecute 1 ''SELECT 1'', CursorFetchall 1, CursorDescription 1,
       NewDataFrame demo_rows (map hd demo_description), Print (msg_retrieved (length demo_rows))])"
    by (rule mp [OF conjunct1 [OF conjunct2 [OF C5_table_shape]] a])
  have 2: "query_to_dataframe statement_client demo_connected ''CREATE TABLE t (id INT)''
      demo_open =
     (Inl none_not_iterable, demo_open\<lparr>executed := True\<rparr>,
      [CursorExecute 1 ''CREATE TABLE t (id INT)'', CursorFetchall 1, CursorDescription 1,
       Print (msg_convert_failed none_not_iterable)])"
    by (rule mp [OF conjunct2 [OF conjunct2 [OF C5_table_shape]] b])
  have n: "map hd demo_description = [PyStr ''id'', PyStr ''name'']"
    by (simp add: demo_description_def)
  have l: "length demo_rows = 2" by (simp add: demo_rows_def)
  from 1 n l have ex: "query_to_dataframe demo_client demo_connected ''SELECT 1'' demo_open =
     (Inr \<lparr>columns = [PyStr ''id'', PyStr ''name''], data = demo_rows\<rparr>,
      demo_open\<lparr>executed := True\<rparr>,
      [CursorExecute 1 ''SELECT 1'', CursorFetchall 1, CursorDescription 1,
       NewDataFrame demo_rows [PyStr ''id'', PyStr ''name''], Print (msg_retrieved 2)])"
    by simp
  let ?df = "\<lparr>columns = [PyStr ''id'', PyStr ''name''], data = demo_rows\<rparr>"
  from mp [OF conjunct1 [OF C5_table_shape] ex]
  have "\<forall>r \<in> set (data ?df). length r = length (columns ?df)"
    by (elim exE conjE) assumption
  then have 3: "list_all (\<lambda>r. length r = 2) demo_rows"
    by (simp add: list_all_iff)
  from ex 2 3 show ?thesis by simp
qed

lemma to_dict_demo:
  "to_dict \<lparr>columns = [PyStr ''id'', PyStr ''name''],
            data = [[PyInt 1, PyStr ''a''], [PyInt 2, PyStr ''b'']]\<rparr>
   = [(PyStr ''id'', [PyInt 1, PyInt 2]), (PyStr ''name'', [PyStr ''a'', PyStr ''b''])]"
  by (simp add: to_dict_def)

lemma msg_retrieved_2: "msg_retrieved 2 = check_mark @ '' Retrieved 2 rows''"
  by (simp add: msg_retrieved_def str_nat.simps digit_char_def)

text \<open>
  Claim C6. On a stored cursor whose execution succeeds, whose fetch returns the rows
  \<^verbatim>\<open>(1, "a")\<close> and \<^verbatim>\<open>(2, "b")\<close> and whose description yields the names
  \<^verbatim>\<open>id\<close> and \<^verbatim>\<open>name\<close>, \<^verbatim>\<open>query_to_dataframe\<close> returns the table with
  those names and rows, which reads column by column as
  \<^verbatim>\<open>{"id": [1, 2], "name": ["a", "b"]}\<close> and has two rows, and the last line it
  prints reports 2 rows.
\<close>

theorem C6_example_table:
  assumes "cursor self = Some k"
    and "cursor_execute cl k q w = (Inr (), w1)"
    and "cursor_fetchall cl k w1 = (Inr [[PyInt 1, PyStr ''a''], [PyInt 2, PyStr ''b'']], w2)"
    and "cursor_description cl k w2 = (Inr (Some ds), w3)"
    and "column_names ds = Inr [PyStr ''id'', PyStr ''name'']"
  shows "query_to_dataframe cl self q w =
           (Inr \<lparr>columns = [PyStr ''id'', PyStr ''name''],
                 data = [[PyInt 1, PyStr ''a''], [PyInt 2, PyStr ''b'']]\<rparr>, w3,
            [CursorExecute k q, CursorFetchall k, CursorDescription k,
             NewDataFrame [[PyInt 1, PyStr ''a''], [PyInt 2, PyStr ''b'']]
               [PyStr ''id'', PyStr ''name''],
             Print (check_mark @ '' Retrieved 2 rows'')])
         \<and> to_dict \<lparr>columns = [PyStr ''id'', PyStr ''name''],
                 data = [[PyInt 1, PyStr ''a''], [PyInt 2, PyStr ''b'']]\<rparr>
             = [(PyStr ''id'', [PyInt 1, PyInt 2]),
                (PyStr ''name'', [PyStr ''a'', PyStr ''b''])]
         \<and> len_df \<lparr>columns = [PyStr ''id'', PyStr ''name''],
                 data = [[PyInt 1, PyStr ''a''], [PyInt 2, PyStr ''b'']]\<rparr> = 2"
proof -
  let ?rows = "[[PyInt 1, PyStr ''a''], [PyInt 2, PyStr ''b'']]"
  let ?df = "\<lparr>columns = [PyStr ''id'', PyStr ''name''], data = ?rows\<rparr>"
  from assms(1-3) have a: "execute_query cl self q w =
      (Inr ?rows, w2, [CursorExecute k q, CursorFetchall k])"
    by (simp add: execute_query_def)
  have f: "DataFrame ?rows [PyStr ''id'', PyStr ''name''] = Inr ?df"
    by (simp add: DataFrame_def)
  have l: "len_df ?df = 2" by (simp add: len_df_def)
  from assms(1,4,5) f l have b: "build_frame cl self ?rows w2 =
      (Inr ?df, w3,
       [CursorDescription k, NewDataFrame ?rows [PyStr ''id'', PyStr ''name''],
        Print (msg_retrieved 2)])"
    by (simp add: build_frame_def)
  from a b have "query_to_dataframe cl self q w =
           (Inr ?df, w3,
            [CursorExecute k q, CursorFetchall k, CursorDescription k,
             NewDataFrame ?rows [PyStr ''id'', PyStr ''name''],
             Print (check_mark @ '' Retrieved 2 rows'')])"
    by (simp add: query_to_dataframe_def msg_retrieved_2)
  with to_dict_demo l show ?thesis by simp
qed

text \<open>The theorem of C6 at the scripted client, on the connected handle.\<close>

theorem C6_witness:
  "query_to_dataframe demo_client demo_connected ''SELECT * FROM t'' demo_open =
     (Inr \<lparr>columns = [PyStr ''id'', PyStr ''name''],
           data = [[PyInt 1, PyStr ''a''], [PyInt 2, PyStr ''b'']]\<rparr>,
      demo_open\<lparr>executed := True\<rparr>,
      [CursorExecute 1 ''SELECT * FROM t'', CursorFetchall 1, CursorDescription 1,
       NewDataFrame [[PyInt 1, PyStr ''a''], [PyInt 2, PyStr ''b'']]
         [PyStr ''id'', PyStr ''name''],
       Print (check_mark @ '' Retrieved 2 rows'')])"
proof -
  have a: "cursor demo_connected = Some 1" by (simp add: demo_connected_def)
  have b: "cursor_execute demo_client 1 ''SELECT * FROM t'' demo_open
      = (Inr (), demo_open\<lparr>executed := True\<rparr>)"
    by (simp add: demo_client_def)
  have c: "cursor_fetchall demo_client 1 (demo_open\<lparr>executed := True\<rparr>)
      = (Inr [[PyInt 1, PyStr ''a''], [PyInt 2, PyStr ''b'']], demo_open\<lparr>executed := True\<rparr>)"
    by (simp add: demo_client_def demo_rows_def)
  have d: "cursor_description demo_client 1 (demo_open\<lparr>executed := True\<rparr>)
      = (Inr (Some demo_description), demo_open\<lparr>executed := True\<rparr>)"
    by (simp add: demo_client_def)
  have e: "column_names demo_description = Inr [PyStr ''id'', PyStr ''name'']"
    by (simp add: demo_description_def)
  from C6_example_table [OF a b c d e] show ?thesis
    by simp
qed

lemma connect_no_table: "filter is_table_call (snd (snd (snd (connect cl self w)))) = []"
  by (simp add: connect_def Let_def split: prod.splits sum.splits)

lemma execute_query_no_table:
  "filter is_table_call (snd (snd (execute_query cl self q w))) = []"
  by (simp add: execute_query_def Let_def split: option.splits prod.splits sum.splits)

lemma close_no_table: "filter is_table_call (snd (snd (snd (close cl self w)))) = []"
  by (simp add: close_def split: option.splits prod.splits sum.splits)

lemma pull_body_rows_no_table:
  "filter is_table_call (snd (snd (snd (pull_body cl db q False w)))) = []"
proof -
  obtain r1 db1 w1 t1 where a: "connect cl db w = (r1, db1, w1, t1)"
    by (cases "connect cl db w")
  with connect_no_table [of cl db w] have t1: "filter is_table_call t1 = []" by simp
  obtain r2 w2 t2 where b: "execute_query cl db1 q w1 = (r2, w2, t2)"
    by (cases "execute_query cl db1 q w1")
  with execute_query_no_table [of cl db1 q w1] have t2: "filter is_table_call t2 = []" by simp
  from a b t1 t2 show ?thesis
    by (cases r1; cases r2) (simp_all add: pull_body_def)
qed

lemma pull_rows_no_table:
  "filter is_table_call (snd (snd (pull_databricks_data cl host path token q False w))) = []"
proof -
  obtain r db1 w1 t1 where a: "pull_body cl (init host path token None None) q False w
      = (r, db1, w1, t1)"
    by (cases "pull_body cl (init host path token None None) q False w")
  with pull_body_rows_no_table [of cl "init host path token None None" q w]
  have t1: "filter is_table_call t1 = []" by simp
  obtain rc db2 w2 t2 where b: "close cl db1 w1 = (rc, db2, w2, t2)"
    by (cases "close cl db1 w1")
  with close_no_table [of cl db1 w1] have t2: "filter is_table_call t2 = []" by simp
  from a b t1 t2 show ?thesis
    by (cases rc) (simp_all add: pull_databricks_data_def)
qed

lemma pull_body_Inr:
  assumes "pull_body cl db q flag w = (Inr v, db1, w2, t)"
  shows "\<exists>w1 t1. connect cl db w = (Inr (), db1, w1, t1)
           \<and> (if flag then \<exists>df t2. query_to_dataframe cl db1 q w1 = (Inr df, w2, t2) \<and> v = Frame df
               else \<exists>rs t2. execute_query cl db1 q w1 = (Inr rs, w2, t2) \<and> v = Rows rs)"
proof -
  obtain r1 d1 w1 t1 where a: "connect cl db w = (r1, d1, w1, t1)"
    by (cases "connect cl db w")
  show ?thesis
  proof (cases r1)
    case (Inl e)
    with assms a show ?thesis by (simp add: pull_body_def)
  next
    case (Inr u)
    show ?thesis
    proof (cases flag)
      case True
      obtain r2 w3 t2 where b: "query_to_dataframe cl d1 q w1 = (r2, w3, t2)"
        by (cases "query_to_dataframe cl d1 q w1")
      from assms a Inr True b show ?thesis
        by (cases r2) (auto simp: pull_body_def)
    next
      case False
      obtain r2 w3 t2 where b: "execute_query cl d1 q w1 = (r2, w3, t2)"
        by (cases "execute_query cl d1 q w1")
      from assms a Inr False b show ?thesis
        by (cases r2) (auto simp: pull_body_def)
    qed
  qed
qed

lemma pull_Inr:
  assumes "fst (pull_databricks_data cl host path token q flag w) = Inr v"
  shows "\<exists>db1 w1 t1. pull_body cl (init host path token None None) q flag w = (Inr v, db1, w1, t1)
           \<and> fst (close cl db1 w1) = Inr ()"
proof -
  obtain r db1 w1 t1 where a: "pull_body cl (init host path token None None) q flag w
      = (r, db1, w1, t1)"
    by (cases "pull_body cl (init host path token None None) q flag w")
  obtain rc db2 w2 t2 where b: "close cl db1 w1 = (rc, db2, w2, t2)"
    by (cases "close cl db1 w1")
  from assms a b show ?thesis
    by (cases rc) (simp_all add: pull_databricks_data_def)
qed

text \<open>
  Claim C7. A call of \<^verbatim>\<open>pull_databricks_data\<close> with \<^verbatim>\<open>as_dataframe=False\<close>
  never constructs a table, however it ends. When the session and the cursor are
  opened, the execution and the fetch succeed and both close calls return, it returns
  exactly the rows of the fetch. Whenever it returns a value, that value is the list of
  rows the fetch returned on the cursor it opened.
\<close>

theorem C7_rows_and_no_table:
  "filter is_table_call (snd (snd (pull_databricks_data cl host path token q False w))) = []
   \<and> (sql_connect cl host path ''pat'' token w = (Inr c, w1)
      \<and> connection_cursor cl c w1 = (Inr k, w2)
      \<and> cursor_execute cl k q w2 = (Inr (), w3)
      \<and> cursor_fetchall cl k w3 = (Inr rs, w4)
      \<and> cursor_close cl k w4 = (Inr (), w5)
      \<and> connection_close cl c w5 = (Inr (), w6)
      \<longrightarrow> pull_databricks_data cl host path token q False w =
            (Inr (Rows rs), w6,
             [SqlConnect host path ''pat'' token, ConnCursor c, Print msg_connected,
              CursorExecute k q, CursorFetchall k,
              CursorClose k, ConnClose c, Print msg_closed]))
   \<and> (fst (pull_databricks_data cl host path token q False w) = Inr v
      \<longrightarrow> (\<exists>c' w1' k' w2' w3' rs' w4'.
             sql_connect cl host path ''pat'' token w = (Inr c', w1')
           \<and> connection_cursor cl c' w1' = (Inr k', w2')
           \<and> cursor_execute cl k' q w2' = (Inr (), w3')
           \<and> cursor_fetchall cl k' w3' = (Inr rs', w4')
           \<and> v = Rows rs'))"
proof (intro conjI impI)
  show "filter is_table_call (snd (snd (pull_databricks_data cl host path token q False w))) = []"
    by (rule pull_rows_no_table)
next
  assume "sql_connect cl host path ''pat'' token w = (Inr c, w1)
      \<and> connection_cursor cl c w1 = (Inr k, w2)
      \<and> cursor_execute cl k q w2 = (Inr (), w3)
      \<and> cursor_fetchall cl k w3 = (Inr rs, w4)
      \<and> cursor_close cl k w4 = (Inr (), w5)
      \<and> connection_close cl c w5 = (Inr (), w6)"
  then show "pull_databricks_data cl host path token q False w =
            (Inr (Rows rs), w6,
             [SqlConnect host path ''pat'' token, ConnCursor c, Print msg_connected,
              CursorExecute k q, CursorFetchall k,
              CursorClose k, ConnClose c, Print msg_closed])"
    by (simp add: pull_databricks_data_def pull_body_def connect_def execute_query_def
        close_def init_def)
next
  assume "fst (pull_databricks_data cl host path token q False w) = Inr v"
  from pull_Inr [OF this] obtain db1 wb tb where
    b: "pull_body cl (init host path token None None) q False w = (Inr v, db1, wb, tb)" by blast
  from pull_body_Inr [OF b] obtain wa ta rs t2 where
    c: "connect cl (init host path token None None) w = (Inr (), db1, wa, ta)"
    and e: "execute_query cl db1 q wa = (Inr rs, wb, t2)" and v: "v = Rows rs"
    by auto
  from connect_Inr [OF c] obtain c' k' w0 where
    s: "sql_connect cl host path ''pat'' token w = (Inr c', w0)"
       "connection_cursor cl c' w0 = (Inr k', wa)"
       "db1 = (init host path token None None)\<lparr>connection := Some c', cursor := Some k'\<rparr>"
    by (auto simp: init_def)
  from s(3) have k: "cursor db1 = Some k'" by simp
  from execute_query_Inr [OF e] k obtain w3' where
    x: "cursor_execute cl k' q wa = (Inr (), w3')" "cursor_fetchall cl k' w3' = (Inr rs, wb)"
    by auto
  from s x v show "\<exists>c' w1' k' w2' w3' rs' w4'.
             sql_connect cl host path ''pat'' token w = (Inr c', w1')
           \<and> connection_cursor cl c' w1' = (Inr k', w2')
           \<and> cursor_execute cl k' q w2' = (Inr (), w3')
           \<and> cursor_fetchall cl k' w3' = (Inr rs', w4')
           \<and> v = Rows rs'"
    by blast
qed

text \<open>The theorem of C7 at the scripted client: the two example rows come back as they are.\<close>

theorem C7_witness:
  "pull_databricks_data demo_client ''host'' ''/path'' ''secret'' ''SELECT * FROM t'' False
     demo_start =
     (Inr (Rows [[PyInt 1, PyStr ''a''], [PyInt 2, PyStr ''b'']]),
      demo_start\<lparr>executed := True\<rparr>,
      [SqlConnect ''host'' ''/path'' ''pat'' ''secret'', ConnCursor 1, Print msg_connected,
       CursorExecute 1 ''SELECT * FROM t'', CursorFetchall 1,
       CursorClose 1, ConnClose 1, Print msg_closed])"
proof -
  have h: "sql_connect demo_client ''host'' ''/path'' ''pat'' ''secret'' demo_start
          = (Inr 1, demo_start\<lparr>session_open := True\<rparr>)
      \<and> connection_cursor demo_client 1 (demo_start\<lparr>session_open := True\<rparr>)
          = (Inr 1, demo_open)
      \<and> cursor_execute demo_client 1 ''SELECT * FROM t'' demo_open
          = (Inr (), demo_open\<lparr>executed := True\<rparr>)
      \<and> cursor_fetchall demo_client 1 (demo_open\<lparr>executed := True\<rparr>)
          = (Inr [[PyInt 1, PyStr ''a''], [PyInt 2, PyStr ''b'']],
             demo_open\<lparr>executed := True\<rparr>)
      \<and> cursor_close demo_client 1 (demo_open\<lparr>executed := True\<rparr>)
          = (Inr (), demo_open\<lparr>executed := True, cursor_open := False\<rparr>)
      \<and> connection_close demo_client 1 (demo_open\<lparr>executed := True, cursor_open := False\<rparr>)
          = (Inr (), demo_start\<lparr>executed := True\<rparr>)"
    by (simp add: demo_client_def demo_open_def demo_start_def demo_rows_def)
  show ?thesis
    by (rule mp [OF conjunct1 [OF conjunct2 [OF C7_rows_and_no_table]] h])
qed

lemma connect_first_call:
  "\<exists>rest. snd (snd (snd (connect cl self w))) =
     SqlConnect (hostname self) (http_path self) ''pat'' (personal_access_token self) # rest"
proof -
  obtain r0 w0 where a: "sql_connect cl (hostname self) (http_path self) ''pat''
      (personal_access_token self) w = (r0, w0)"
    by (cases "sql_connect cl (hostname self) (http_path self) ''pat''
      (personal_access_token self) w")
  show ?thesis
  proof (cases r0)
    case (Inl e')
    with a show ?thesis by (simp add: connect_def Let_def)
  next
    case (Inr c)
    obtain r2 w2 where b: "connection_cursor cl c w0 = (r2, w2)"
      by (cases "connection_cursor cl c w0")
    from a Inr b show ?thesis
      by (cases r2) (simp_all add: connect_def Let_def)
  qed
qed

lemma pull_body_first_call:
  "\<exists>rest. snd (snd (snd (pull_body cl db q flag w))) =
     SqlConnect (hostname db) (http_path db) ''pat'' (personal_access_token db) # rest"
proof -
  obtain r1 db1 w1 t1 where a: "connect cl db w = (r1, db1, w1, t1)"
    by (cases "connect cl db w")
  with connect_first_call [of cl db w] obtain rest where
    t1: "t1 = SqlConnect (hostname db) (http_path db) ''pat'' (personal_access_token db) # rest"
    by auto
  obtain r2 w2 t2 where b: "query_to_dataframe cl db1 q w1 = (r2, w2, t2)"
    by (cases "query_to_dataframe cl db1 q w1")
  obtain r3 w3 t3 where c: "execute_query cl db1 q w1 = (r3, w3, t3)"
    by (cases "execute_query cl db1 q w1")
  from a t1 b c show ?thesis
    by (cases r1; cases r2; cases r3; cases flag) (simp_all add: pull_body_def)
qed

text \<open>
  Claim C8, as the code has it. The module does not validate the connection
  parameters: \<^verbatim>\<open>__init__\<close> stores hostname, access path and token as given, and
  the first thing \<^verbatim>\<open>connect\<close> does, and so the first thing
  \<^verbatim>\<open>pull_databricks_data\<close> does, is to call \<^verbatim>\<open>sql.connect\<close> with exactly
  these values, whatever they are, empty strings included.
\<close>

theorem C8_connect_attempted_with_given_parameters:
  "hostname (init host path token cat sch) = host
   \<and> http_path (init host path token cat sch) = path
   \<and> personal_access_token (init host path token cat sch) = token
   \<and> (\<exists>rest. snd (snd (snd (connect cl self w0))) =
         SqlConnect (hostname self) (http_path self) ''pat'' (personal_access_token self) # rest)
   \<and> (\<exists>rest. snd (snd (pull_databricks_data cl host path token q flag w)) =
         SqlConnect host path ''pat'' token # rest)"
proof -
  obtain r db1 w1 t1 where a: "pull_body cl (init host path token None None) q flag w
      = (r, db1, w1, t1)"
    by (cases "pull_body cl (init host path token None None) q flag w")
  with pull_body_first_call [of cl "init host path token None None" q flag w]
  obtain rest where t1: "t1 = SqlConnect host path ''pat'' token # rest"
    by (auto simp: init_def)
  obtain rc db2 w2 t2 where b: "close cl db1 w1 = (rc, db2, w2, t2)"
    by (cases "close cl db1 w1")
  from a b t1 have "\<exists>rest. snd (snd (pull_databricks_data cl host path token q flag w)) =
         SqlConnect host path ''pat'' token # rest"
    by (cases rc) (simp_all add: pull_databricks_data_def)
  with connect_first_call [of cl self w0] show ?thesis
    by (simp add: init_def)
qed

text \<open>
  Claim C8 as stated fails: a handle made of three empty strings is accepted, and
  \<^verbatim>\<open>connect\<close> on it calls \<^verbatim>\<open>sql.connect\<close> with an empty host, an empty path
  and an empty token; with the scripted client the connection attempt even succeeds.
\<close>

theorem C8_counterexample:
  "connect demo_client (init '''' '''' '''' None None) demo_start =
     (Inr (), (init '''' '''' '''' None None)\<lparr>connection := Some 1, cursor := Some 1\<rparr>,
      demo_open,
      [SqlConnect '''' '''' ''pat'' '''', ConnCursor 1, Print msg_connected])"
  by (simp add: connect_def init_def demo_client_def demo_start_def demo_open_def)

lemma printed_hide_token: "printed (map hide_token t) = printed t"
  by (induction t rule: printed.induct) simp_all

lemma execute_query_token:
  "execute_query cl (self\<lparr>personal_access_token := t\<rparr>) q w = execute_query cl self q w"
  by (simp add: execute_query_def)

lemma build_frame_token:
  "build_frame cl (self\<lparr>personal_access_token := t\<rparr>) rs w = build_frame cl self rs w"
  by (simp add: build_frame_def)

lemma query_to_dataframe_token:
  "query_to_dataframe cl (self\<lparr>personal_access_token := t\<rparr>) q w
   = query_to_dataframe cl self q w"
  by (simp add: query_to_dataframe_def execute_query_token build_frame_token
      split: prod.splits sum.splits)

lemma close_token:
  "close cl (self\<lparr>personal_access_token := t\<rparr>) w =
     (case close cl self w of (r, h, w', tr) \<Rightarrow> (r, h\<lparr>personal_access_token := t\<rparr>, w', tr))"
proof -
  obtain ra wa ta where a: "(case cursor self of None \<Rightarrow> (Inr (), w, [])
      | Some k \<Rightarrow> (case cursor_close cl k w of (r, w1) \<Rightarrow> (r, w1, [CursorClose k])))
      = (ra, wa, ta)"
    by (cases "case cursor self of None \<Rightarrow> (Inr (), w, [])
      | Some k \<Rightarrow> (case cursor_close cl k w of (r, w1) \<Rightarrow> (r, w1, [CursorClose k]))")
  show ?thesis
  proof (cases ra)
    case (Inl e)
    with a show ?thesis by (simp add: close_def)
  next
    case (Inr u)
    show ?thesis
    proof (cases "connection self")
      case None
      with a Inr show ?thesis by (simp add: close_def)
    next
      case (Some c)
      obtain r2 w2 where b: "connection_close cl c wa = (r2, w2)"
        by (cases "connection_close cl c wa")
      from a Inr Some b show ?thesis by (cases r2) (simp_all add: close_def)
    qed
  qed
qed

lemma connect_token:
  assumes "sql_connect cl (hostname self) (http_path self) ''pat'' t1 w
         = sql_connect cl (hostname self) (http_path self) ''pat'' t2 w"
  shows "connect cl (self\<lparr>personal_access_token := t2\<rparr>) w =
     (case connect cl (self\<lparr>personal_access_token := t1\<rparr>) w of
        (r, h, w', SqlConnect host path auth tok # tr) \<Rightarrow>
           (r, h\<lparr>personal_access_token := t2\<rparr>, w', SqlConnect host path auth t2 # tr)
      | x \<Rightarrow> x)"
proof -
  obtain r0 w0 where a: "sql_connect cl (hostname self) (http_path self) ''pat'' t1 w = (r0, w0)"
    by (cases "sql_connect cl (hostname self) (http_path self) ''pat'' t1 w")
  with assms have a': "sql_connect cl (hostname self) (http_path self) ''pat'' t2 w = (r0, w0)"
    by simp
  show ?thesis
  proof (cases r0)
    case (Inl e)
    with a a' show ?thesis by (simp add: connect_def Let_def)
  next
    case (Inr c)
    obtain r2 w2 where b: "connection_cursor cl c w0 = (r2, w2)"
      by (cases "connection_cursor cl c w0")
    from a a' Inr b show ?thesis by (cases r2) (simp_all add: connect_def Let_def)
  qed
qed

lemma connect_token_run:
  assumes same: "sql_connect cl (hostname self) (http_path self) ''pat'' t1 w
         = sql_connect cl (hostname self) (http_path self) ''pat'' t2 w"
    and run: "connect cl (self\<lparr>personal_access_token := t1\<rparr>) w = (r, h, w', tr)"
  shows "\<exists>tr'. connect cl (self\<lparr>personal_access_token := t2\<rparr>) w
             = (r, h\<lparr>personal_access_token := t2\<rparr>, w', tr')
           \<and> map hide_token tr' = map hide_token tr"
proof -
  from connect_first_call [of cl "self\<lparr>personal_access_token := t1\<rparr>" w] run
  obtain rest where tr: "tr = SqlConnect (hostname self) (http_path self) ''pat'' t1 # rest"
    by auto
  from connect_token [OF same] run tr
  have "connect cl (self\<lparr>personal_access_token := t2\<rparr>) w
      = (r, h\<lparr>personal_access_token := t2\<rparr>, w',
         SqlConnect (hostname self) (http_path self) ''pat'' t2 # rest)"
    by simp
  with tr show ?thesis by simp
qed

lemma pull_body_token_run:
  assumes same: "sql_connect cl (hostname self) (http_path self) ''pat'' t1 w
         = sql_connect cl (hostname self) (http_path self) ''pat'' t2 w"
    and run: "pull_body cl (self\<lparr>personal_access_token := t1\<rparr>) q flag w = (r, h, w', tr)"
  shows "\<exists>tr'. pull_body cl (self\<lparr>personal_access_token := t2\<rparr>) q flag w
             = (r, h\<lparr>personal_access_token := t2\<rparr>, w', tr')
           \<and> map hide_token tr' = map hide_token tr"
proof -
  obtain r1 h1 w1 tr1 where a: "connect cl (self\<lparr>personal_access_token := t1\<rparr>) w
      = (r1, h1, w1, tr1)"
    by (cases "connect cl (self\<lparr>personal_access_token := t1\<rparr>) w")
  from connect_token_run [OF same a] obtain tr1' where
    b: "connect cl (self\<lparr>personal_access_token := t2\<rparr>) w
          = (r1, h1\<lparr>personal_access_token := t2\<rparr>, w1, tr1')"
    and m: "map hide_token tr1' = map hide_token tr1" by blast
  obtain r2 w2 tr2 where c: "query_to_dataframe cl h1 q w1 = (r2, w2, tr2)"
    by (cases "query_to_dataframe cl h1 q w1")
  obtain r3 w3 tr3 where d: "execute_query cl h1 q w1 = (r3, w3, tr3)"
    by (cases "execute_query cl h1 q w1")
  from run a b m c d show ?thesis
    by (cases r1; cases r2; cases r3; cases flag)
       (auto simp: pull_body_def query_to_dataframe_token execute_query_token)
qed

lemma pull_token_run:
  assumes same: "sql_connect cl host path ''pat'' t1 w = sql_connect cl host path ''pat'' t2 w"
    and run: "pull_databricks_data cl host path t1 q flag w = (r, w', tr)"
  shows "\<exists>tr'. pull_databricks_data cl host path t2 q flag w = (r, w', tr')
           \<and> map hide_token tr' = map hide_token tr"
proof -
  let ?db = "init host path t1 None None"
  have i1: "?db\<lparr>personal_access_token := t1\<rparr> = init host path t1 None None"
    and i2: "?db\<lparr>personal_access_token := t2\<rparr> = init host path t2 None None"
    and hp: "hostname ?db = host" "http_path ?db = path"
    by (simp_all add: init_def)
  obtain rb hb wb trb where a: "pull_body cl (?db\<lparr>personal_access_token := t1\<rparr>) q flag w
      = (rb, hb, wb, trb)"
    by (cases "pull_body cl (?db\<lparr>personal_access_token := t1\<rparr>) q flag w")
  from same hp have same': "sql_connect cl (hostname ?db) (http_path ?db) ''pat'' t1 w
         = sql_connect cl (hostname ?db) (http_path ?db) ''pat'' t2 w" by simp
  from pull_body_token_run [OF same' a] obtain trb' where
    b: "pull_body cl (?db\<lparr>personal_access_token := t2\<rparr>) q flag w
          = (rb, hb\<lparr>personal_access_token := t2\<rparr>, wb, trb')"
    and m: "map hide_token trb' = map hide_token trb" by blast
  obtain rc hc wc trc where c: "close cl hb wb = (rc, hc, wc, trc)"
    by (cases "close cl hb wb")
  then have c': "close cl (hb\<lparr>personal_access_token := t2\<rparr>) wb
      = (rc, hc\<lparr>personal_access_token := t2\<rparr>, wc, trc)"
    by (simp add: close_token)
  from a i1 have a': "pull_body cl (init host path t1 None None) q flag w = (rb, hb, wb, trb)"
    by simp
  from b i2 have b': "pull_body cl (init host path t2 None None) q flag w
          = (rb, hb\<lparr>personal_access_token := t2\<rparr>, wb, trb')" by simp
  from run a' c b' c' m show ?thesis
    by (cases rc) (auto simp: pull_databricks_data_def)
qed

text \<open>
  Claim C9. Take two runs that differ only in the access token, against a client whose
  \<^verbatim>\<open>sql.connect\<close> behaves the same for both tokens. Then \<^verbatim>\<open>connect\<close> prints
  the same lines in both, \<^verbatim>\<open>execute_query\<close> and \<^verbatim>\<open>query_to_dataframe\<close> do
  exactly the same in both, \<^verbatim>\<open>close\<close> has the same outcome, world and trace in
  both, and \<^verbatim>\<open>pull_databricks_data\<close> has the same outcome and prints the same
  lines in both: the two traces differ at most in the token argument handed to
  \<^verbatim>\<open>sql.connect\<close>.
\<close>

theorem C9_output_independent_of_token:
  assumes same: "sql_connect cl (hostname self) (http_path self) ''pat'' t1 w
         = sql_connect cl (hostname self) (http_path self) ''pat'' t2 w"
  shows "fst (connect cl (self\<lparr>personal_access_token := t1\<rparr>) w)
           = fst (connect cl (self\<lparr>personal_access_token := t2\<rparr>) w)
       \<and> printed (snd (snd (snd (connect cl (self\<lparr>personal_access_token := t1\<rparr>) w))))
           = printed (snd (snd (snd (connect cl (self\<lparr>personal_access_token := t2\<rparr>) w))))
       \<and> execute_query cl (self\<lparr>personal_access_token := t1\<rparr>) q w
           = execute_query cl (self\<lparr>personal_access_token := t2\<rparr>) q w
       \<and> query_to_dataframe cl (self\<lparr>personal_access_token := t1\<rparr>) q w
           = query_to_dataframe cl (self\<lparr>personal_access_token := t2\<rparr>) q w
       \<and> fst (close cl (self\<lparr>personal_access_token := t1\<rparr>) w)
           = fst (close cl (self\<lparr>personal_access_token := t2\<rparr>) w)
       \<and> snd (snd (close cl (self\<lparr>personal_access_token := t1\<rparr>) w))
           = snd (snd (close cl (self\<lparr>personal_access_token := t2\<rparr>) w))
       \<and> fst (pull_databricks_data cl (hostname self) (http_path self) t1 q flag w)
           = fst (pull_databricks_data cl (hostname self) (http_path self) t2 q flag w)
       \<and> printed (snd (snd (pull_databricks_data cl (hostname self) (http_path self) t1 q flag w)))
           = printed (snd (snd (pull_databricks_data cl (hostname self) (http_path self) t2 q flag w)))
       \<and> map hide_token
            (snd (snd (pull_databricks_data cl (hostname self) (http_path self) t1 q flag w)))
           = map hide_token
            (snd (snd (pull_databricks_data cl (hostname self) (http_path self) t2 q flag w)))"
proof -
  obtain r h w' tr where a: "connect cl (self\<lparr>personal_access_token := t1\<rparr>) w = (r, h, w', tr)"
    by (cases "connect cl (self\<lparr>personal_access_token := t1\<rparr>) w")
  from connect_token_run [OF same a] obtain tr' where
    b: "connect cl (self\<lparr>personal_access_token := t2\<rparr>) w
          = (r, h\<lparr>personal_access_token := t2\<rparr>, w', tr')"
    and m: "map hide_token tr' = map hide_token tr" by blast
  from m have "printed (map hide_token tr') = printed (map hide_token tr)" by simp
  then have p: "printed tr' = printed tr" by (simp only: printed_hide_token)
  obtain rp wp trp where c: "pull_databricks_data cl (hostname self) (http_path self) t1 q flag w
      = (rp, wp, trp)"
    by (cases "pull_databricks_data cl (hostname self) (http_path self) t1 q flag w")
  from pull_token_run [OF same c] obtain trp' where
    d: "pull_databricks_data cl (hostname self) (http_path self) t2 q flag w = (rp, wp, trp')"
    and mp: "map hide_token trp' = map hide_token trp" by blast
  from mp have "printed (map hide_token trp') = printed (map hide_token trp)" by simp
  then have pp: "printed trp' = printed trp" by (simp only: printed_hide_token)
  obtain rc hc wc trc where e: "close cl self w = (rc, hc, wc, trc)"
    by (cases "close cl self w")
  from a b p c d mp pp e show ?thesis
    by (simp add: execute_query_token query_to_dataframe_token close_token)
qed

text \<open>
  The theorem of C9 at the scripted client, which accepts every token, and at a client
  that rejects every token with the same message.
\<close>

theorem C9_witness:
  "printed (snd (snd (pull_databricks_data demo_client (hostname demo_handle)
       (http_path demo_handle) ''secret-one'' ''SELECT 1'' True demo_start)))
   = printed (snd (snd (pull_databricks_data demo_client (hostname demo_handle)
       (http_path demo_handle) ''secret-two'' ''SELECT 1'' True demo_start)))
   \<and> printed (snd (snd (pull_databricks_data rejecting_client (hostname demo_handle)
       (http_path demo_handle) ''secret-one'' ''SELECT 1'' True demo_start)))
   = printed (snd (snd (pull_databricks_data rejecting_client (hostname demo_handle)
       (http_path demo_handle) ''secret-two'' ''SELECT 1'' True demo_start)))"
proof -
  have a: "sql_connect demo_client (hostname demo_handle) (http_path demo_handle) ''pat''
      ''secret-one'' demo_start
    = sql_connect demo_client (hostname demo_handle) (http_path demo_handle) ''pat''
      ''secret-two'' demo_start"
    by (simp add: demo_client_def)
  have b: "sql_connect rejecting_client (hostname demo_handle) (http_path demo_handle) ''pat''
      ''secret-one'' demo_start
    = sql_connect rejecting_client (hostname demo_handle) (http_path demo_handle) ''pat''
      ''secret-two'' demo_start"
    by (simp add: rejecting_client_def)
  from C9_output_independent_of_token [OF a] C9_output_independent_of_token [OF b]
  show ?thesis by blast
qed

lemma connect_no_close: "filter is_close_call (snd (snd (snd (connect cl self w)))) = []"
  by (simp add: connect_def Let_def split: prod.splits sum.splits)

lemma connect_no_query: "filter is_query_call (snd (snd (snd (connect cl self w)))) = []"
  by (simp add: connect_def Let_def split: prod.splits sum.splits)

lemma close_no_query: "filter is_query_call (snd (snd (snd (close cl self w)))) = []"
  by (simp add: close_def split: option.splits prod.splits sum.splits)

lemma execute_query_no_close:
  "filter is_close_call (snd (snd (execute_query cl self q w))) = []"
  by (simp add: execute_query_def Let_def split: option.splits prod.splits sum.splits)

lemma build_frame_no_close:
  "filter is_close_call (snd (snd (build_frame cl self rs w))) = []"
  by (simp add: build_frame_def split: option.splits prod.splits sum.splits)

lemma query_to_dataframe_no_close:
  "filter is_close_call (snd (snd (query_to_dataframe cl self q w))) = []"
proof -
  obtain r1 w1 t1 where a: "execute_query cl self q w = (r1, w1, t1)"
    by (cases "execute_query cl self q w")
  with execute_query_no_close [of cl self q w] have t1: "filter is_close_call t1 = []" by simp
  show ?thesis
  proof (cases r1)
    case (Inl e)
    with a t1 show ?thesis by (simp add: query_to_dataframe_def)
  next
    case (Inr rs)
    obtain r2 w2 t2 where b: "build_frame cl self rs w1 = (r2, w2, t2)"
      by (cases "build_frame cl self rs w1")
    with build_frame_no_close [of cl self rs w1] have t2: "filter is_close_call t2 = []" by simp
    from a Inr b t1 t2 show ?thesis by (cases r2) (simp_all add: query_to_dataframe_def)
  qed
qed

lemma pull_body_no_close:
  "filter is_close_call (snd (snd (snd (pull_body cl db q flag w)))) = []"
proof -
  obtain r1 db1 w1 t1 where a: "connect cl db w = (r1, db1, w1, t1)"
    by (cases "connect cl db w")
  with connect_no_close [of cl db w] have t1: "filter is_close_call t1 = []" by simp
  obtain r2 w2 t2 where b: "query_to_dataframe cl db1 q w1 = (r2, w2, t2)"
    by (cases "query_to_dataframe cl db1 q w1")
  with query_to_dataframe_no_close [of cl db1 q w1] have t2: "filter is_close_call t2 = []"
    by simp
  obtain r3 w3 t3 where c: "execute_query cl db1 q w1 = (r3, w3, t3)"
    by (cases "execute_query cl db1 q w1")
  with execute_query_no_close [of cl db1 q w1] have t3: "filter is_close_call t3 = []" by simp
  from a b c t1 t2 t3 show ?thesis
    by (cases r1; cases r2; cases r3; cases flag) (simp_all add: pull_body_def)
qed

lemma pull_body_connect_fails:
  assumes "fst (connect cl db w) = Inl e"
  shows "pull_body cl db q flag w = (Inl e, snd (connect cl db w))"
proof -
  obtain r1 db1 w1 t1 where a: "connect cl db w = (r1, db1, w1, t1)"
    by (cases "connect cl db w")
  with assms show ?thesis by (simp add: pull_body_def)
qed

lemma close_calls_made:
  assumes "close cl self w = (rc, self2, w2, t2)"
  shows "(filter is_close_call t2 = close_calls self
          \<or> filter is_close_call t2 = take 1 (close_calls self))
       \<and> (rc = Inr () \<longrightarrow> filter is_close_call t2 = close_calls self)"
proof (cases "cursor self")
  case None
  show ?thesis
  proof (cases "connection self")
    case n: None
    with None assms show ?thesis by (auto simp: close_def close_calls_def)
  next
    case (Some c)
    obtain r3 w3 where b: "connection_close cl c w = (r3, w3)"
      by (cases "connection_close cl c w")
    from None Some b assms show ?thesis
      by (cases r3) (auto simp: close_def close_calls_def)
  qed
next
  case k: (Some k)
  obtain r1 w1 where a: "cursor_close cl k w = (r1, w1)" by (cases "cursor_close cl k w")
  show ?thesis
  proof (cases r1)
    case (Inl e)
    with k a assms show ?thesis
      by (auto simp: close_def close_calls_def split: option.splits)
  next
    case (Inr u)
    show ?thesis
    proof (cases "connection self")
      case None
      with k a Inr assms show ?thesis by (auto simp: close_def close_calls_def)
    next
      case (Some c)
      obtain r3 w3 where b: "connection_close cl c w1 = (r3, w3)"
        by (cases "connection_close cl c w1")
      from k a Inr Some b assms show ?thesis
        by (cases r3) (auto simp: close_def close_calls_def)
    qed
  qed
qed

lemma pull_unfold:
  assumes "pull_body cl (init host path token None None) q flag w = (r, db1, w1, t1)"
    and "close cl db1 w1 = (rc, db2, w2, t2)"
  shows "pull_databricks_data cl host path token q flag w =
           ((case rc of Inl e \<Rightarrow> Inl e | Inr u \<Rightarrow> r), w2, t1 @ t2)"
  using assms by (cases rc) (simp_all add: pull_databricks_data_def)

lemma close_cursor_raises:
  assumes "cursor self = Some k" and "cursor_close cl k w = (Inl e, w')"
  shows "close cl self w = (Inl e, self, w', [CursorClose k])"
  using assms by (simp add: close_def)

text \<open>
  Claim C4, as the code has it. On every run \<^verbatim>\<open>pull_databricks_data\<close> is its
  \<^verbatim>\<open>try\<close> body followed by one \<^verbatim>\<open>close\<close> on the handle the body left: the
  body makes no close call, and \<^verbatim>\<open>close\<close> closes each stored resource at most
  once. When \<^verbatim>\<open>connect\<close> fails, no query is executed or fetched. The caller
  observes the outcome of the body, so the original exception, whenever
  \<^verbatim>\<open>close\<close> returns normally; that is the case when the library's close calls
  return normally, and always when \<^verbatim>\<open>sql.connect\<close> itself failed, since then
  \<^verbatim>\<open>close\<close> finds nothing to release. An exception raised by a library close
  call inside \<^verbatim>\<open>close\<close> is what the caller observes instead: when the close
  of the stored cursor raises, that exception leaves \<^verbatim>\<open>close\<close> before the
  session is touched; when the close of the stored session raises (the cursor being
  absent or closed normally), that exception leaves \<^verbatim>\<open>close\<close>; either one
  is the outcome of \<^verbatim>\<open>pull_databricks_data\<close>, whatever the body's outcome was.
\<close>

theorem C4_close_once_after_body:
  assumes body: "pull_body cl (init host path token None None) q flag w = (r, db1, w1, t1)"
    and fin: "close cl db1 w1 = (rc, db2, w2, t2)"
  shows "pull_databricks_data cl host path token q flag w =
           ((case rc of Inl e \<Rightarrow> Inl e | Inr u \<Rightarrow> r), w2, t1 @ t2)
       \<and> filter is_close_call t1 = []
       \<and> (filter is_close_call t2 = close_calls db1
            \<or> filter is_close_call t2 = take 1 (close_calls db1))
       \<and> (rc = Inr () \<longrightarrow>
            filter is_close_call t2 = close_calls db1
            \<and> fst (pull_databricks_data cl host path token q flag w) = r)
       \<and> ((\<exists>e. fst (connect cl (init host path token None None) w) = Inl e) \<longrightarrow>
            filter is_query_call (t1 @ t2) = [])
       \<and> ((\<forall>k w'. fst (cursor_close cl k w') = Inr ())
            \<and> (\<forall>c w'. fst (connection_close cl c w') = Inr ()) \<longrightarrow> rc = Inr ())
       \<and> ((\<exists>e. fst (sql_connect cl host path ''pat'' token w) = Inl e) \<longrightarrow>
            rc = Inr () \<and> t2 = [])
       \<and> (cursor db1 = Some k \<and> cursor_close cl k w1 = (Inl ek, wk) \<longrightarrow>
            rc = Inl ek \<and> t2 = [CursorClose k]
            \<and> fst (pull_databricks_data cl host path token q flag w) = Inl ek)
       \<and> (connection db1 = Some c
            \<and> (cursor db1 = None \<and> wa = w1
                 \<or> (\<exists>k'. cursor db1 = Some k' \<and> cursor_close cl k' w1 = (Inr (), wa)))
            \<and> connection_close cl c wa = (Inl ec, wc) \<longrightarrow>
            rc = Inl ec
            \<and> fst (pull_databricks_data cl host path token q flag w) = Inl ec)"
proof (intro conjI impI)
  show u: "pull_databricks_data cl host path token q flag w =
           ((case rc of Inl e \<Rightarrow> Inl e | Inr u \<Rightarrow> r), w2, t1 @ t2)"
    by (rule pull_unfold [OF body fin])
  from pull_body_no_close [of cl "init host path token None None" q flag w] body
  show "filter is_close_call t1 = []" by simp
  from close_calls_made [OF fin]
  show "filter is_close_call t2 = close_calls db1
      \<or> filter is_close_call t2 = take 1 (close_calls db1)" by simp
  {
    assume ok: "rc = Inr ()"
    with close_calls_made [OF fin] show "filter is_close_call t2 = close_calls db1" by simp
    from u ok show "fst (pull_databricks_data cl host path token q flag w) = r" by simp
  }
  {
    assume "\<exists>e. fst (connect cl (init host path token None None) w) = Inl e"
    then obtain e where e: "fst (connect cl (init host path token None None) w) = Inl e" ..
    obtain r0 d0 w0 t0 where cn: "connect cl (init host path token None None) w = (r0, d0, w0, t0)"
      by (cases "connect cl (init host path token None None) w")
    with connect_no_query [of cl "init host path token None None" w]
    have q0: "filter is_query_call t0 = []" by simp
    from pull_body_connect_fails [OF e, of q flag] body cn have "t1 = t0" by simp
    with q0 have q1: "filter is_query_call t1 = []" by simp
    from close_no_query [of cl db1 w1] fin have "filter is_query_call t2 = []" by simp
    with q1 show "filter is_query_call (t1 @ t2) = []" by simp
  }
  {
    assume "(\<forall>k w'. fst (cursor_close cl k w') = Inr ())
            \<and> (\<forall>c w'. fst (connection_close cl c w') = Inr ())"
    then have ck: "\<forall>k w'. fst (cursor_close cl k w') = Inr ()"
      and cc: "\<forall>c w'. fst (connection_close cl c w') = Inr ()" by simp_all
    from close_total [OF ck cc, of db1 w1] fin show "rc = Inr ()" by auto
  }
  {
    assume "\<exists>e. fst (sql_connect cl host path ''pat'' token w) = Inl e"
    then obtain e where e: "fst (sql_connect cl host path ''pat'' token w) = Inl e" ..
    obtain r0 w0 where s: "sql_connect cl host path ''pat'' token w = (r0, w0)"
      by (cases "sql_connect cl host path ''pat'' token w")
    with e have c: "connect cl (init host path token None None) w =
        (Inl e, init host path token None None, w0,
         [SqlConnect host path ''pat'' token, Print (msg_connect_failed e)])"
      by (simp add: connect_def init_def)
    then have "fst (connect cl (init host path token None None) w) = Inl e" by simp
    from pull_body_connect_fails [OF this, of q flag] body c
    have "db1 = init host path token None None" by simp
    then have "cursor db1 = None" "connection db1 = None" by (simp_all add: init_def)
    from close_absent [OF this, of cl w1] fin show "rc = Inr ()" and "t2 = []" by simp_all
  }
  {
    assume "cursor db1 = Some k \<and> cursor_close cl k w1 = (Inl ek, wk)"
    then have "close cl db1 w1 = (Inl ek, db1, wk, [CursorClose k])"
      by (simp add: close_cursor_raises)
    with fin show rk: "rc = Inl ek" and "t2 = [CursorClose k]" by simp_all
    from u rk show "fst (pull_databricks_data cl host path token q flag w) = Inl ek" by simp
  }
  {
    assume a: "connection db1 = Some c
            \<and> (cursor db1 = None \<and> wa = w1
                 \<or> (\<exists>k'. cursor db1 = Some k' \<and> cursor_close cl k' w1 = (Inr (), wa)))
            \<and> connection_close cl c wa = (Inl ec, wc)"
    then have "fst (close cl db1 w1) = Inl ec"
      by (auto simp: close_def)
    with fin show rk: "rc = Inl ec" by simp
    from u rk show "fst (pull_databricks_data cl host path token q flag w) = Inl ec" by simp
  }
qed

text \<open>
  Claim C4 as stated fails in its last part: with a client whose \<^verbatim>\<open>execute\<close>
  raises and whose \<^verbatim>\<open>connection.close()\<close> raises too, the body ends with the
  query failure, and the caller observes the failure of the close instead.
\<close>

theorem C4_counterexample:
  "fst (pull_body failing_execute_and_close (init ''host'' ''/path'' ''secret'' None None)
          ''SELECT 1'' False demo_start) = Inl boom
   \<and> pull_databricks_data failing_execute_and_close ''host'' ''/path'' ''secret''
        ''SELECT 1'' False demo_start =
       (Inl close_error, \<lparr>session_open = True, cursor_open = False, executed = False\<rparr>,
        [SqlConnect ''host'' ''/path'' ''pat'' ''secret'', ConnCursor 1, Print msg_connected,
         CursorExecute 1 ''SELECT 1'', Print (msg_query_failed boom),
         CursorClose 1, ConnClose 1])
   \<and> close_error \<noteq> boom"
  by (simp add: pull_databricks_data_def pull_body_def connect_def execute_query_def close_def
      init_def failing_execute_and_close_def demo_client_def demo_start_def close_error_def
      boom_def)

text \<open>
  The theorem of C4 at four runs: a client whose \<^verbatim>\<open>sql.connect\<close> raises, a
  client whose \<^verbatim>\<open>execute\<close> raises while its close calls return normally, a
  client whose cursor fails to close after a successful query, and a client whose
  \<^verbatim>\<open>execute\<close> raises and whose session then fails to close.
\<close>

theorem C4_witness:
  "pull_databricks_data failing_connect ''host'' ''/path'' ''secret'' ''SELECT 1'' True
      demo_start =
     (Inl boom, demo_start,
      [SqlConnect ''host'' ''/path'' ''pat'' ''secret'', Print (msg_connect_failed boom)])
   \<and> pull_databricks_data failing_execute ''host'' ''/path'' ''secret'' ''SELECT 1'' True
      demo_start =
     (Inl boom, demo_start,
      [SqlConnect ''host'' ''/path'' ''pat'' ''secret'', ConnCursor 1, Print msg_connected,
       CursorExecute 1 ''SELECT 1'', Print (msg_query_failed boom),
       Print (msg_convert_failed boom), CursorClose 1, ConnClose 1, Print msg_closed])
   \<and> pull_databricks_data failing_cursor_close ''host'' ''/path'' ''secret'' ''SELECT 1'' False
      demo_start =
     (Inl close_error, demo_open\<lparr>executed := True\<rparr>,
      [SqlConnect ''host'' ''/path'' ''pat'' ''secret'', ConnCursor 1, Print msg_connected,
       CursorExecute 1 ''SELECT 1'', CursorFetchall 1, CursorClose 1])
   \<and> fst (pull_databricks_data failing_execute_and_close ''host'' ''/path'' ''secret''
      ''SELECT 1'' False demo_start) = Inl close_error"
proof -
  let ?db = "init ''host'' ''/path'' ''secret'' None None"
  let ?dbc = "?db\<lparr>connection := Some 1, cursor := Some 1\<rparr>"
  have a: "pull_body failing_connect ?db ''SELECT 1'' True demo_start =
     (Inl boom, ?db, demo_start,
      [SqlConnect ''host'' ''/path'' ''pat'' ''secret'', Print (msg_connect_failed boom)])"
    by (simp add: pull_body_def connect_def init_def failing_connect_def demo_client_def)
  have b: "close failing_connect ?db demo_start = (Inr (), ?db, demo_start, [])"
    by (simp add: close_def init_def)
  have c: "pull_body failing_execute ?db ''SELECT 1'' True demo_start =
     (Inl boom, ?dbc, demo_open,
      [SqlConnect ''host'' ''/path'' ''pat'' ''secret'', ConnCursor 1, Print msg_connected,
       CursorExecute 1 ''SELECT 1'', Print (msg_query_failed boom),
       Print (msg_convert_failed boom)])"
    by (simp add: pull_body_def connect_def query_to_dataframe_def execute_query_def init_def
        failing_execute_def demo_client_def demo_start_def demo_open_def)
  have d: "close failing_execute ?dbc demo_open =
     (Inr (), ?dbc, demo_start, [CursorClose 1, ConnClose 1, Print msg_closed])"
    by (simp add: close_def init_def failing_execute_def demo_client_def demo_start_def
        demo_open_def)
  have e: "pull_body failing_cursor_close ?db ''SELECT 1'' False demo_start =
     (Inr (Rows demo_rows), ?dbc, demo_open\<lparr>executed := True\<rparr>,
      [SqlConnect ''host'' ''/path'' ''pat'' ''secret'', ConnCursor 1, Print msg_connected,
       CursorExecute 1 ''SELECT 1'', CursorFetchall 1])"
    by (simp add: pull_body_def connect_def execute_query_def init_def
        failing_cursor_close_def demo_client_def demo_start_def demo_open_def)
  have f: "close failing_cursor_close ?dbc (demo_open\<lparr>executed := True\<rparr>) =
     (Inl close_error, ?dbc, demo_open\<lparr>executed := True\<rparr>, [CursorClose 1])"
    by (simp add: close_def init_def failing_cursor_close_def demo_client_def)
  have fk: "cursor ?dbc = Some 1
      \<and> cursor_close failing_cursor_close 1 (demo_open\<lparr>executed := True\<rparr>)
          = (Inl close_error, demo_open\<lparr>executed := True\<rparr>)"
    by (simp add: failing_cursor_close_def demo_client_def)
  have g: "pull_body failing_execute_and_close ?db ''SELECT 1'' False demo_start =
     (Inl boom, ?dbc, demo_open,
      [SqlConnect ''host'' ''/path'' ''pat'' ''secret'', ConnCursor 1, Print msg_connected,
       CursorExecute 1 ''SELECT 1'', Print (msg_query_failed boom)])"
    by (simp add: pull_body_def connect_def execute_query_def init_def
        failing_execute_and_close_def demo_client_def demo_start_def demo_open_def)
  have h: "close failing_execute_and_close ?dbc demo_open =
     (Inl close_error, ?dbc, demo_open\<lparr>cursor_open := False\<rparr>, [CursorClose 1, ConnClose 1])"
    by (simp add: close_def init_def failing_execute_and_close_def demo_client_def)
  have hc: "connection ?dbc = Some 1
      \<and> (cursor ?dbc = None \<and> demo_open\<lparr>cursor_open := False\<rparr> = demo_open
           \<or> (\<exists>k'. cursor ?dbc = Some k'
                \<and> cursor_close failing_execute_and_close k' demo_open
                    = (Inr (), demo_open\<lparr>cursor_open := False\<rparr>)))
      \<and> connection_close failing_execute_and_close 1 (demo_open\<lparr>cursor_open := False\<rparr>)
          = (Inl close_error, demo_open\<lparr>cursor_open := False\<rparr>)"
    by (simp add: failing_execute_and_close_def demo_client_def)
  from C4_close_once_after_body [OF a b] have 1: "pull_databricks_data failing_connect ''host'' ''/path''
      ''secret'' ''SELECT 1'' True demo_start =
     (Inl boom, demo_start,
      [SqlConnect ''host'' ''/path'' ''pat'' ''secret'', Print (msg_connect_failed boom)])"
    by simp
  from C4_close_once_after_body [OF c d] have 2: "pull_databricks_data failing_execute ''host'' ''/path''
      ''secret'' ''SELECT 1'' True demo_start =
     (Inl boom, demo_start,
      [SqlConnect ''host'' ''/path'' ''pat'' ''secret'', ConnCursor 1, Print msg_connected,
       CursorExecute 1 ''SELECT 1'', Print (msg_query_failed boom),
       Print (msg_convert_failed boom), CursorClose 1, ConnClose 1, Print msg_closed])"
    by simp
  from C4_close_once_after_body [OF e f] have 3: "pull_databricks_data failing_cursor_close ''host'' ''/path''
      ''secret'' ''SELECT 1'' False demo_start =
     (Inl close_error, demo_open\<lparr>executed := True\<rparr>,
      [SqlConnect ''host'' ''/path'' ''pat'' ''secret'', ConnCursor 1, Print msg_connected,
       CursorExecute 1 ''SELECT 1'', CursorFetchall 1, CursorClose 1])"
    by simp
  from C4_close_once_after_body [OF g h, where c = 1 and wa = "demo_open\<lparr>cursor_open := False\<rparr>"
      and ec = close_error and wc = "demo_open\<lparr>cursor_open := False\<rparr>"] hc
  have 4: "fst (pull_databricks_data failing_execute_and_close ''host'' ''/path'' ''secret''
      ''SELECT 1'' False demo_start) = Inl close_error"
    by blast
  from 1 2 3 4 show ?thesis by simp
qed

end
